theory Spec2Isabelle
  imports Main "HOL-Library.Sublist"
begin

section \<open>The node model (querynodes.h, as used by the two source files)\<close>

text \<open>
  The traversal outcome \<open>EDealRes\<close>, the traversal order and the enumerations whose
  constants occur in the sources. Enumerations of which no constant occurs in the
  sources (join type, sort order, fill mode, set operator type, show type) are kept as
  the C integer they are.
\<close>

datatype EDealRes = DEAL_RES_CONTINUE | DEAL_RES_ERROR | DEAL_RES_END

datatype ETraversalOrder = TRAVERSAL_PREORDER | TRAVERSAL_INORDER | TRAVERSAL_POSTORDER

datatype EOperatorType =
  OP_TYPE_GREATER_THAN | OP_TYPE_GREATER_EQUAL | OP_TYPE_LOWER_THAN | OP_TYPE_LOWER_EQUAL

datatype ELogicConditionType = LOGIC_COND_TYPE_AND | LOGIC_COND_TYPE_OR

datatype ENodeType =
    QUERY_NODE_COLUMN | QUERY_NODE_VALUE | QUERY_NODE_OPERATOR | QUERY_NODE_LOGIC_CONDITION
  | QUERY_NODE_IS_NULL_CONDITION | QUERY_NODE_FUNCTION | QUERY_NODE_REAL_TABLE
  | QUERY_NODE_TEMP_TABLE | QUERY_NODE_JOIN_TABLE | QUERY_NODE_GROUPING_SET
  | QUERY_NODE_ORDER_BY_EXPR | QUERY_NODE_LIMIT | QUERY_NODE_STATE_WINDOW
  | QUERY_NODE_SESSION_WINDOW | QUERY_NODE_INTERVAL_WINDOW | QUERY_NODE_NODE_LIST
  | QUERY_NODE_FILL | QUERY_NODE_RAW_EXPR | QUERY_NODE_TARGET | QUERY_NODE_SET_OPERATOR
  | QUERY_NODE_SELECT_STMT | QUERY_NODE_SHOW_STMT

text \<open>
  A node pointer \<open>SNode*\<close> is an \<open>SNode option\<close> (\<open>None\<close> is \<open>NULL\<close>); a list pointer
  \<open>SNodeList*\<close> is an \<open>SNode option list option\<close>: the list itself may be \<open>NULL\<close>, and
  each cell holds a node pointer. Every constructor carries the fields that the sources
  read or write, in the order of the factory's arguments.
\<close>

datatype SNode =
    Column string string
  | Value
  | Limit
  | Operator EOperatorType "SNode option" "SNode option"
  | LogicCondition ELogicConditionType "SNode option list option"
  | Function string "SNode option list option"
  | RealTable string string
  | TempTable "SNode option"
  | JoinTable int "SNode option" "SNode option" "SNode option"
  | GroupingSet "SNode option list option"
  | OrderByExpr "SNode option" int int
  | StateWindow "SNode option" "SNode option"
  | SessionWindow "SNode option" "SNode option"
  | IntervalWindow "SNode option" "SNode option" "SNode option" "SNode option" "SNode option"
  | NodeListNode "SNode option list option"
  | Fill int "SNode option"
  | RawExpr "SNode option"
  | Target "SNode option"
  | IsNullCondition "SNode option" bool
  | SetOperator int "SNode option" "SNode option"
  | SelectStmt SSelectStmt
  | ShowStmt int
and SSelectStmt =
    SSelectStmt
      (isDistinct: bool)
      (isStar: bool)
      (pProjectionList: "SNode option list option")
      (pFromTable: "SNode option")
      (pWhere: "SNode option")
      (pPartitionByList: "SNode option list option")
      (pWindow: "SNode option")
      (pGroupByList: "SNode option list option")
      (pHaving: "SNode option")
      (pOrderByList: "SNode option list option")
      (pLimit: "SNode option")
      (pSlimit: "SNode option")

fun nodeType :: "SNode \<Rightarrow> ENodeType" where
  "nodeType (Column t c) = QUERY_NODE_COLUMN"
| "nodeType Value = QUERY_NODE_VALUE"
| "nodeType Limit = QUERY_NODE_LIMIT"
| "nodeType (Operator t l r) = QUERY_NODE_OPERATOR"
| "nodeType (LogicCondition t ps) = QUERY_NODE_LOGIC_CONDITION"
| "nodeType (Function f ps) = QUERY_NODE_FUNCTION"
| "nodeType (RealTable d t) = QUERY_NODE_REAL_TABLE"
| "nodeType (TempTable q) = QUERY_NODE_TEMP_TABLE"
| "nodeType (JoinTable t l r c) = QUERY_NODE_JOIN_TABLE"
| "nodeType (GroupingSet ps) = QUERY_NODE_GROUPING_SET"
| "nodeType (OrderByExpr e ord nullOrd) = QUERY_NODE_ORDER_BY_EXPR"
| "nodeType (StateWindow e c) = QUERY_NODE_STATE_WINDOW"
| "nodeType (SessionWindow c g) = QUERY_NODE_SESSION_WINDOW"
| "nodeType (IntervalWindow i off s f c) = QUERY_NODE_INTERVAL_WINDOW"
| "nodeType (NodeListNode ps) = QUERY_NODE_NODE_LIST"
| "nodeType (Fill m v) = QUERY_NODE_FILL"
| "nodeType (RawExpr e) = QUERY_NODE_RAW_EXPR"
| "nodeType (Target e) = QUERY_NODE_TARGET"
| "nodeType (IsNullCondition e b) = QUERY_NODE_IS_NULL_CONDITION"
| "nodeType (SetOperator t l r) = QUERY_NODE_SET_OPERATOR"
| "nodeType (SelectStmt s) = QUERY_NODE_SELECT_STMT"
| "nodeType (ShowStmt t) = QUERY_NODE_SHOW_STMT"

text \<open>Assignments to the clause slots of a select statement.\<close>

fun set_pProjectionList :: "SNode option list option \<Rightarrow> SSelectStmt \<Rightarrow> SSelectStmt" where
  "set_pProjectionList v (SSelectStmt d s pr fr wh pa wi gr ha ob li sl) =
     SSelectStmt d s v fr wh pa wi gr ha ob li sl"

fun set_pFromTable :: "SNode option \<Rightarrow> SSelectStmt \<Rightarrow> SSelectStmt" where
  "set_pFromTable v (SSelectStmt d s pr fr wh pa wi gr ha ob li sl) =
     SSelectStmt d s pr v wh pa wi gr ha ob li sl"

fun set_pWhere :: "SNode option \<Rightarrow> SSelectStmt \<Rightarrow> SSelectStmt" where
  "set_pWhere v (SSelectStmt d s pr fr wh pa wi gr ha ob li sl) =
     SSelectStmt d s pr fr v pa wi gr ha ob li sl"

fun set_pPartitionByList :: "SNode option list option \<Rightarrow> SSelectStmt \<Rightarrow> SSelectStmt" where
  "set_pPartitionByList v (SSelectStmt d s pr fr wh pa wi gr ha ob li sl) =
     SSelectStmt d s pr fr wh v wi gr ha ob li sl"

fun set_pWindow :: "SNode option \<Rightarrow> SSelectStmt \<Rightarrow> SSelectStmt" where
  "set_pWindow v (SSelectStmt d s pr fr wh pa wi gr ha ob li sl) =
     SSelectStmt d s pr fr wh pa v gr ha ob li sl"

fun set_pGroupByList :: "SNode option list option \<Rightarrow> SSelectStmt \<Rightarrow> SSelectStmt" where
  "set_pGroupByList v (SSelectStmt d s pr fr wh pa wi gr ha ob li sl) =
     SSelectStmt d s pr fr wh pa wi v ha ob li sl"

fun set_pHaving :: "SNode option \<Rightarrow> SSelectStmt \<Rightarrow> SSelectStmt" where
  "set_pHaving v (SSelectStmt d s pr fr wh pa wi gr ha ob li sl) =
     SSelectStmt d s pr fr wh pa wi gr v ob li sl"

fun set_pOrderByList :: "SNode option list option \<Rightarrow> SSelectStmt \<Rightarrow> SSelectStmt" where
  "set_pOrderByList v (SSelectStmt d s pr fr wh pa wi gr ha ob li sl) =
     SSelectStmt d s pr fr wh pa wi gr ha v li sl"

fun set_pLimit :: "SNode option \<Rightarrow> SSelectStmt \<Rightarrow> SSelectStmt" where
  "set_pLimit v (SSelectStmt d s pr fr wh pa wi gr ha ob li sl) =
     SSelectStmt d s pr fr wh pa wi gr ha ob v sl"

fun set_pSlimit :: "SNode option \<Rightarrow> SSelectStmt \<Rightarrow> SSelectStmt" where
  "set_pSlimit v (SSelectStmt d s pr fr wh pa wi gr ha ob li sl) =
     SSelectStmt d s pr fr wh pa wi gr ha ob li v"


section \<open>The traversal engine (nodesTraverseFuncs.c)\<close>

text \<open>
  A walker \<open>EDealRes (*)(SNode*, void* pContext)\<close> reads the node and may update what
  \<open>pContext\<close> points to: it is a function from the node and the context to the outcome
  and the new context. The walk threads the context through the calls in the order in
  which the C code makes them. Nodes are values here, so a walker that writes into the
  node it is handed is not covered; the walk itself writes into no node.
\<close>

type_synonym 'c FNodeWalker = "SNode \<Rightarrow> 'c \<Rightarrow> EDealRes \<times> 'c"

text \<open>
  The statement \<open>if (DEAL_RES_ERROR != res && DEAL_RES_END != res) { res = next; }\<close>
  that follows a child visit.
\<close>

definition andThen :: "EDealRes \<times> 'c \<Rightarrow> ('c \<Rightarrow> EDealRes \<times> 'c) \<Rightarrow> EDealRes \<times> 'c" where
  "andThen rc next = (case rc of (res, cx) \<Rightarrow>
     if res \<noteq> DEAL_RES_ERROR \<and> res \<noteq> DEAL_RES_END then next cx else (res, cx))"

text \<open>
  \<open>walkNode\<close> is the C function of that name; \<open>walkChildren\<close> is its \<open>switch\<close> on the
  node type, one equation per \<open>case\<close> in the order of the source (the last four
  equations are the \<open>default\<close> branch). On entry to the \<open>switch\<close> the variable \<open>res\<close> is
  \<open>DEAL_RES_CONTINUE\<close> (its initial value, or the walker's outcome that passed the
  pre-order test), which is what the branches without a child visit leave in it.
  \<open>walkList\<close> is the \<open>FOREACH\<close> loop, which runs no iteration on a \<open>NULL\<close> list.
\<close>

fun walkNode :: "SNode option \<Rightarrow> ETraversalOrder \<Rightarrow> 'c FNodeWalker \<Rightarrow> 'c \<Rightarrow> EDealRes \<times> 'c"
and walkChildren :: "SNode \<Rightarrow> ETraversalOrder \<Rightarrow> 'c FNodeWalker \<Rightarrow> 'c \<Rightarrow> EDealRes \<times> 'c"
and walkList :: "SNode option list option \<Rightarrow> ETraversalOrder \<Rightarrow> 'c FNodeWalker \<Rightarrow> 'c \<Rightarrow> EDealRes \<times> 'c"
where
  "walkNode None order walker cx = (DEAL_RES_CONTINUE, cx)"
| "walkNode (Some pNode) order walker cx =
     (case (if order = TRAVERSAL_PREORDER then walker pNode cx else (DEAL_RES_CONTINUE, cx)) of
        (res, cx) \<Rightarrow>
          if order = TRAVERSAL_PREORDER \<and> res \<noteq> DEAL_RES_CONTINUE then (res, cx)
          else (case walkChildren pNode order walker cx of
                  (res, cx) \<Rightarrow>
                    if res \<noteq> DEAL_RES_ERROR \<and> res \<noteq> DEAL_RES_END \<and> order = TRAVERSAL_POSTORDER
                    then walker pNode cx
                    else (res, cx)))"
| "walkChildren (Column t c) order walker cx = (DEAL_RES_CONTINUE, cx)"
| "walkChildren Value order walker cx = (DEAL_RES_CONTINUE, cx)"
| "walkChildren Limit order walker cx = (DEAL_RES_CONTINUE, cx)"
| "walkChildren (Operator t pLeft pRight) order walker cx =
     andThen (walkNode pLeft order walker cx)
       (\<lambda>cx. walkNode pRight order walker cx)"
| "walkChildren (LogicCondition t pParameterList) order walker cx =
     walkList pParameterList order walker cx"
| "walkChildren (Function f pParameterList) order walker cx =
     walkList pParameterList order walker cx"
| "walkChildren (RealTable d t) order walker cx = (DEAL_RES_CONTINUE, cx)"
| "walkChildren (TempTable pSubquery) order walker cx = (DEAL_RES_CONTINUE, cx)"
| "walkChildren (JoinTable t pLeft pRight pOnCond) order walker cx =
     andThen (andThen (walkNode pLeft order walker cx)
       (\<lambda>cx. walkNode pRight order walker cx))
       (\<lambda>cx. walkNode pOnCond order walker cx)"
| "walkChildren (GroupingSet pParameterList) order walker cx =
     walkList pParameterList order walker cx"
| "walkChildren (OrderByExpr pExpr ord nullOrd) order walker cx =
     walkNode pExpr order walker cx"
| "walkChildren (StateWindow pExpr pCol) order walker cx =
     andThen (walkNode pExpr order walker cx)
       (\<lambda>cx. walkNode pCol order walker cx)"
| "walkChildren (SessionWindow pCol pGap) order walker cx =
     andThen (walkNode pCol order walker cx)
       (\<lambda>cx. walkNode pGap order walker cx)"
| "walkChildren (IntervalWindow pInterval pOffset pSliding pFill pCol) order walker cx =
     andThen (andThen (andThen (andThen (walkNode pInterval order walker cx)
       (\<lambda>cx. walkNode pOffset order walker cx))
       (\<lambda>cx. walkNode pSliding order walker cx))
       (\<lambda>cx. walkNode pFill order walker cx))
       (\<lambda>cx. walkNode pCol order walker cx)"
| "walkChildren (NodeListNode pNodeList) order walker cx =
     walkList pNodeList order walker cx"
| "walkChildren (Fill m pValues) order walker cx = walkNode pValues order walker cx"
| "walkChildren (RawExpr pNode) order walker cx = walkNode pNode order walker cx"
| "walkChildren (Target pExpr) order walker cx = walkNode pExpr order walker cx"
| "walkChildren (IsNullCondition pExpr b) order walker cx = (DEAL_RES_CONTINUE, cx)"
| "walkChildren (SetOperator t pLeft pRight) order walker cx = (DEAL_RES_CONTINUE, cx)"
| "walkChildren (SelectStmt s) order walker cx = (DEAL_RES_CONTINUE, cx)"
| "walkChildren (ShowStmt t) order walker cx = (DEAL_RES_CONTINUE, cx)"
| "walkList None order walker cx = (DEAL_RES_CONTINUE, cx)"
| "walkList (Some []) order walker cx = (DEAL_RES_CONTINUE, cx)"
| "walkList (Some (node # cells)) order walker cx =
     (case walkNode node order walker cx of
        (res, cx) \<Rightarrow>
          if res = DEAL_RES_ERROR \<or> res = DEAL_RES_END then (res, cx)
          else walkList (Some cells) order walker cx)"

text \<open>The exported entry points discard the outcome: they return \<open>void\<close>.\<close>

definition nodesWalkExpr :: "SNode option \<Rightarrow> 'c FNodeWalker \<Rightarrow> 'c \<Rightarrow> 'c" where
  "nodesWalkExpr pNode walker cx = snd (walkNode pNode TRAVERSAL_PREORDER walker cx)"

definition nodesWalkExprs :: "SNode option list option \<Rightarrow> 'c FNodeWalker \<Rightarrow> 'c \<Rightarrow> 'c" where
  "nodesWalkExprs pNodeList walker cx = snd (walkList pNodeList TRAVERSAL_PREORDER walker cx)"

definition nodesWalkExprPostOrder :: "SNode option \<Rightarrow> 'c FNodeWalker \<Rightarrow> 'c \<Rightarrow> 'c" where
  "nodesWalkExprPostOrder pNode walker cx = snd (walkNode pNode TRAVERSAL_POSTORDER walker cx)"

definition nodesWalkExprsPostOrder :: "SNode option list option \<Rightarrow> 'c FNodeWalker \<Rightarrow> 'c \<Rightarrow> 'c" where
  "nodesWalkExprsPostOrder pList walker cx = snd (walkList pList TRAVERSAL_POSTORDER walker cx)"


section \<open>The rewrite engine (nodesTraverseFuncs.c)\<close>

text \<open>
  A rewriter \<open>EDealRes (*)(SNode** pNode, void* pContext)\<close> receives a slot that holds a
  node, may store another node pointer (or \<open>NULL\<close>) in it, and may update the context:
  it maps the node in the slot and the context to the outcome, the new content of the
  slot and the new context.

  In pre-order the engine descends into whatever the rewriter left in the slot, which
  may be larger than the node it replaced, so the C recursion need not end. The
  functions below therefore take fuel, one unit per level of descent, and a result is
  one of: the call returns; the call reads the node type through a \<open>NULL\<close> pointer (a
  pre-order rewriter that emptied the slot and asked to continue); the fuel ran out.
\<close>

type_synonym 'c FNodeRewriter = "SNode \<Rightarrow> 'c \<Rightarrow> EDealRes \<times> SNode option \<times> 'c"

datatype 'a outcome = Returns 'a | NullDeref | OutOfFuel

definition bind :: "'a outcome \<Rightarrow> ('a \<Rightarrow> 'b outcome) \<Rightarrow> 'b outcome" where
  "bind m f = (case m of Returns x \<Rightarrow> f x | NullDeref \<Rightarrow> NullDeref | OutOfFuel \<Rightarrow> OutOfFuel)"

text \<open>
  \<open>rewriteSlot\<close> is the body of the C function \<open>rewriteNode\<close> for a slot pointer that is
  not \<open>NULL\<close> (every recursive call passes the address of a field or of a list cell);
  its argument and the second component of its result are the content of the slot
  before and after. \<open>rewriteChildren\<close> is the \<open>switch\<close>: it returns the node with its
  child fields as the recursive calls left them. \<open>rewriteList\<close> is the
  \<open>FOREACH_FOR_REWRITE\<close> loop over the cells of a list.
\<close>

fun rewriteSlot :: "nat \<Rightarrow> SNode option \<Rightarrow> ETraversalOrder \<Rightarrow> 'c FNodeRewriter \<Rightarrow> 'c
      \<Rightarrow> (EDealRes \<times> SNode option \<times> 'c) outcome"
and rewriteChildren :: "nat \<Rightarrow> SNode \<Rightarrow> ETraversalOrder \<Rightarrow> 'c FNodeRewriter \<Rightarrow> 'c
      \<Rightarrow> (EDealRes \<times> SNode \<times> 'c) outcome"
and rewriteList :: "nat \<Rightarrow> SNode option list option \<Rightarrow> ETraversalOrder \<Rightarrow> 'c FNodeRewriter \<Rightarrow> 'c
      \<Rightarrow> (EDealRes \<times> SNode option list option \<times> 'c) outcome"
where
  "rewriteSlot fuel None order rewriter cx = Returns (DEAL_RES_CONTINUE, None, cx)"
| "rewriteSlot 0 (Some pNode) order rewriter cx = OutOfFuel"
| "rewriteSlot (Suc fuel) (Some pNode) order rewriter cx =
     (case (if order = TRAVERSAL_PREORDER then rewriter pNode cx
            else (DEAL_RES_CONTINUE, Some pNode, cx)) of
        (res, slot, cx) \<Rightarrow>
          if order = TRAVERSAL_PREORDER \<and> res \<noteq> DEAL_RES_CONTINUE then Returns (res, slot, cx)
          else (case slot of
                  None \<Rightarrow> NullDeref
                | Some pNode \<Rightarrow>
                    bind (rewriteChildren fuel pNode order rewriter cx) (\<lambda>(res, pNode, cx).
                      if res \<noteq> DEAL_RES_ERROR \<and> res \<noteq> DEAL_RES_END \<and> order = TRAVERSAL_POSTORDER
                      then Returns (rewriter pNode cx)
                      else Returns (res, Some pNode, cx))))"
| "rewriteChildren fuel (Column t c) order rewriter cx =
     Returns (DEAL_RES_CONTINUE, Column t c, cx)"
| "rewriteChildren fuel Value order rewriter cx = Returns (DEAL_RES_CONTINUE, Value, cx)"
| "rewriteChildren fuel Limit order rewriter cx = Returns (DEAL_RES_CONTINUE, Limit, cx)"
| "rewriteChildren fuel (Operator t pLeft pRight) order rewriter cx =
     bind (rewriteSlot fuel pLeft order rewriter cx) (\<lambda>(res, pLeft, cx).
     if res = DEAL_RES_ERROR \<or> res = DEAL_RES_END then Returns (res, Operator t pLeft pRight, cx) else
     bind (rewriteSlot fuel pRight order rewriter cx) (\<lambda>(res, pRight, cx).
     Returns (res, Operator t pLeft pRight, cx)))"
| "rewriteChildren fuel (LogicCondition t pParameterList) order rewriter cx =
     bind (rewriteList fuel pParameterList order rewriter cx) (\<lambda>(res, pParameterList, cx).
     Returns (res, LogicCondition t pParameterList, cx))"
| "rewriteChildren fuel (Function f pParameterList) order rewriter cx =
     bind (rewriteList fuel pParameterList order rewriter cx) (\<lambda>(res, pParameterList, cx).
     Returns (res, Function f pParameterList, cx))"
| "rewriteChildren fuel (RealTable d t) order rewriter cx =
     Returns (DEAL_RES_CONTINUE, RealTable d t, cx)"
| "rewriteChildren fuel (TempTable pSubquery) order rewriter cx =
     Returns (DEAL_RES_CONTINUE, TempTable pSubquery, cx)"
| "rewriteChildren fuel (JoinTable t pLeft pRight pOnCond) order rewriter cx =
     bind (rewriteSlot fuel pLeft order rewriter cx) (\<lambda>(res, pLeft, cx).
     if res = DEAL_RES_ERROR \<or> res = DEAL_RES_END then Returns (res, JoinTable t pLeft pRight pOnCond, cx) else
     bind (rewriteSlot fuel pRight order rewriter cx) (\<lambda>(res, pRight, cx).
     if res = DEAL_RES_ERROR \<or> res = DEAL_RES_END then Returns (res, JoinTable t pLeft pRight pOnCond, cx) else
     bind (rewriteSlot fuel pOnCond order rewriter cx) (\<lambda>(res, pOnCond, cx).
     Returns (res, JoinTable t pLeft pRight pOnCond, cx))))"
| "rewriteChildren fuel (GroupingSet pParameterList) order rewriter cx =
     bind (rewriteList fuel pParameterList order rewriter cx) (\<lambda>(res, pParameterList, cx).
     Returns (res, GroupingSet pParameterList, cx))"
| "rewriteChildren fuel (OrderByExpr pExpr ord nullOrd) order rewriter cx =
     bind (rewriteSlot fuel pExpr order rewriter cx) (\<lambda>(res, pExpr, cx).
     Returns (res, OrderByExpr pExpr ord nullOrd, cx))"
| "rewriteChildren fuel (StateWindow pExpr pCol) order rewriter cx =
     bind (rewriteSlot fuel pExpr order rewriter cx) (\<lambda>(res, pExpr, cx).
     if res = DEAL_RES_ERROR \<or> res = DEAL_RES_END then Returns (res, StateWindow pExpr pCol, cx) else
     bind (rewriteSlot fuel pCol order rewriter cx) (\<lambda>(res, pCol, cx).
     Returns (res, StateWindow pExpr pCol, cx)))"
| "rewriteChildren fuel (SessionWindow pCol pGap) order rewriter cx =
     bind (rewriteSlot fuel pCol order rewriter cx) (\<lambda>(res, pCol, cx).
     if res = DEAL_RES_ERROR \<or> res = DEAL_RES_END then Returns (res, SessionWindow pCol pGap, cx) else
     bind (rewriteSlot fuel pGap order rewriter cx) (\<lambda>(res, pGap, cx).
     Returns (res, SessionWindow pCol pGap, cx)))"
| "rewriteChildren fuel (IntervalWindow pInterval pOffset pSliding pFill pCol) order rewriter cx =
     bind (rewriteSlot fuel pInterval order rewriter cx) (\<lambda>(res, pInterval, cx).
     if res = DEAL_RES_ERROR \<or> res = DEAL_RES_END
     then Returns (res, IntervalWindow pInterval pOffset pSliding pFill pCol, cx) else
     bind (rewriteSlot fuel pOffset order rewriter cx) (\<lambda>(res, pOffset, cx).
     if res = DEAL_RES_ERROR \<or> res = DEAL_RES_END
     then Returns (res, IntervalWindow pInterval pOffset pSliding pFill pCol, cx) else
     bind (rewriteSlot fuel pSliding order rewriter cx) (\<lambda>(res, pSliding, cx).
     if res = DEAL_RES_ERROR \<or> res = DEAL_RES_END
     then Returns (res, IntervalWindow pInterval pOffset pSliding pFill pCol, cx) else
     bind (rewriteSlot fuel pFill order rewriter cx) (\<lambda>(res, pFill, cx).
     if res = DEAL_RES_ERROR \<or> res = DEAL_RES_END
     then Returns (res, IntervalWindow pInterval pOffset pSliding pFill pCol, cx) else
     bind (rewriteSlot fuel pCol order rewriter cx) (\<lambda>(res, pCol, cx).
     Returns (res, IntervalWindow pInterval pOffset pSliding pFill pCol, cx))))))"
| "rewriteChildren fuel (NodeListNode pNodeList) order rewriter cx =
     bind (rewriteList fuel pNodeList order rewriter cx) (\<lambda>(res, pNodeList, cx).
     Returns (res, NodeListNode pNodeList, cx))"
| "rewriteChildren fuel (Fill m pValues) order rewriter cx =
     bind (rewriteSlot fuel pValues order rewriter cx) (\<lambda>(res, pValues, cx).
     Returns (res, Fill m pValues, cx))"
| "rewriteChildren fuel (RawExpr pNode) order rewriter cx =
     bind (rewriteSlot fuel pNode order rewriter cx) (\<lambda>(res, pNode, cx).
     Returns (res, RawExpr pNode, cx))"
| "rewriteChildren fuel (Target pExpr) order rewriter cx =
     bind (rewriteSlot fuel pExpr order rewriter cx) (\<lambda>(res, pExpr, cx).
     Returns (res, Target pExpr, cx))"
| "rewriteChildren fuel (IsNullCondition pExpr b) order rewriter cx =
     Returns (DEAL_RES_CONTINUE, IsNullCondition pExpr b, cx)"
| "rewriteChildren fuel (SetOperator t pLeft pRight) order rewriter cx =
     Returns (DEAL_RES_CONTINUE, SetOperator t pLeft pRight, cx)"
| "rewriteChildren fuel (SelectStmt s) order rewriter cx =
     Returns (DEAL_RES_CONTINUE, SelectStmt s, cx)"
| "rewriteChildren fuel (ShowStmt t) order rewriter cx =
     Returns (DEAL_RES_CONTINUE, ShowStmt t, cx)"
| "rewriteList fuel None order rewriter cx = Returns (DEAL_RES_CONTINUE, None, cx)"
| "rewriteList fuel (Some []) order rewriter cx = Returns (DEAL_RES_CONTINUE, Some [], cx)"
| "rewriteList fuel (Some (node # cells)) order rewriter cx =
     bind (rewriteSlot fuel node order rewriter cx) (\<lambda>(res, node, cx).
     if res = DEAL_RES_ERROR \<or> res = DEAL_RES_END then Returns (res, Some (node # cells), cx) else
     bind (rewriteList fuel (Some cells) order rewriter cx) (\<lambda>(res, pNodeList, cx).
     Returns (res, map_option (\<lambda>cells. node # cells) pNodeList, cx)))"

text \<open>
  The C function \<open>rewriteNode\<close>: its argument \<open>pRawNode\<close> is a pointer to a slot, \<open>None\<close>
  when that pointer itself is \<open>NULL\<close>.
\<close>

definition rewriteNode :: "nat \<Rightarrow> SNode option option \<Rightarrow> ETraversalOrder \<Rightarrow> 'c FNodeRewriter \<Rightarrow> 'c
      \<Rightarrow> (EDealRes \<times> SNode option option \<times> 'c) outcome" where
  "rewriteNode fuel pRawNode order rewriter cx =
     (case pRawNode of
        None \<Rightarrow> Returns (DEAL_RES_CONTINUE, None, cx)
      | Some slot \<Rightarrow>
          bind (rewriteSlot fuel slot order rewriter cx) (\<lambda>(res, slot, cx).
          Returns (res, Some slot, cx)))"

text \<open>The exported entry points: the outcome is discarded, the slot and context remain.\<close>

definition nodesRewriteExpr :: "nat \<Rightarrow> SNode option option \<Rightarrow> 'c FNodeRewriter \<Rightarrow> 'c
      \<Rightarrow> (SNode option option \<times> 'c) outcome" where
  "nodesRewriteExpr fuel pNode rewriter cx =
     bind (rewriteNode fuel pNode TRAVERSAL_PREORDER rewriter cx) (\<lambda>(res, pNode, cx).
     Returns (pNode, cx))"

definition nodesRewriteExprs :: "nat \<Rightarrow> SNode option list option \<Rightarrow> 'c FNodeRewriter \<Rightarrow> 'c
      \<Rightarrow> (SNode option list option \<times> 'c) outcome" where
  "nodesRewriteExprs fuel pList rewriter cx =
     bind (rewriteList fuel pList TRAVERSAL_PREORDER rewriter cx) (\<lambda>(res, pList, cx).
     Returns (pList, cx))"

definition nodesRewriteExprPostOrder :: "nat \<Rightarrow> SNode option option \<Rightarrow> 'c FNodeRewriter \<Rightarrow> 'c
      \<Rightarrow> (SNode option option \<times> 'c) outcome" where
  "nodesRewriteExprPostOrder fuel pNode rewriter cx =
     bind (rewriteNode fuel pNode TRAVERSAL_POSTORDER rewriter cx) (\<lambda>(res, pNode, cx).
     Returns (pNode, cx))"

definition nodesRewriteExprsPostOrder :: "nat \<Rightarrow> SNode option list option \<Rightarrow> 'c FNodeRewriter \<Rightarrow> 'c
      \<Rightarrow> (SNode option list option \<times> 'c) outcome" where
  "nodesRewriteExprsPostOrder fuel pList rewriter cx =
     bind (rewriteList fuel pList TRAVERSAL_POSTORDER rewriter cx) (\<lambda>(res, pList, cx).
     Returns (pList, cx))"


section \<open>The clause-scoped select driver (nodesTraverseFuncs.c)\<close>

text \<open>
  Modelled from the spec: the enumeration \<open>ESqlClause\<close> is declared in querynodes.h,
  which is not among the sources. The driver's \<open>switch\<close> names eight of its constants;
  the ninth clause identifier of the spec's pipeline, the projection, has no \<open>case\<close>
  label and takes the \<open>default\<close> branch.
\<close>

datatype ESqlClause =
    SQL_CLAUSE_FROM | SQL_CLAUSE_WHERE | SQL_CLAUSE_PARTITION_BY | SQL_CLAUSE_WINDOW
  | SQL_CLAUSE_GROUP_BY | SQL_CLAUSE_HAVING | SQL_CLAUSE_DISTINCT | SQL_CLAUSE_ORDER_BY
  | SQL_CLAUSE_PROJECTION

text \<open>
  No \<open>case\<close> of the driver's \<open>switch\<close> ends in \<open>break\<close>: control falls through to the
  statements under the following labels. \<open>walk_case_L\<close> is what runs from the label
  \<open>L\<close> to the end of the \<open>switch\<close>.
\<close>

definition walk_case_ORDER_BY :: "SSelectStmt \<Rightarrow> 'c FNodeWalker \<Rightarrow> 'c \<Rightarrow> 'c" where
  "walk_case_ORDER_BY pSelect walker cx =
     nodesWalkExprs (pProjectionList pSelect) walker cx"

definition walk_case_HAVING :: "SSelectStmt \<Rightarrow> 'c FNodeWalker \<Rightarrow> 'c \<Rightarrow> 'c" where
  "walk_case_HAVING pSelect walker cx =
     walk_case_ORDER_BY pSelect walker (nodesWalkExprs (pOrderByList pSelect) walker cx)"

definition walk_case_GROUP_BY :: "SSelectStmt \<Rightarrow> 'c FNodeWalker \<Rightarrow> 'c \<Rightarrow> 'c" where
  "walk_case_GROUP_BY pSelect walker cx =
     walk_case_HAVING pSelect walker (nodesWalkExpr (pHaving pSelect) walker cx)"

definition walk_case_WINDOW :: "SSelectStmt \<Rightarrow> 'c FNodeWalker \<Rightarrow> 'c \<Rightarrow> 'c" where
  "walk_case_WINDOW pSelect walker cx =
     walk_case_GROUP_BY pSelect walker (nodesWalkExprs (pGroupByList pSelect) walker cx)"

definition walk_case_PARTITION_BY :: "SSelectStmt \<Rightarrow> 'c FNodeWalker \<Rightarrow> 'c \<Rightarrow> 'c" where
  "walk_case_PARTITION_BY pSelect walker cx =
     walk_case_WINDOW pSelect walker (nodesWalkExpr (pWindow pSelect) walker cx)"

definition walk_case_WHERE :: "SSelectStmt \<Rightarrow> 'c FNodeWalker \<Rightarrow> 'c \<Rightarrow> 'c" where
  "walk_case_WHERE pSelect walker cx =
     walk_case_PARTITION_BY pSelect walker (nodesWalkExprs (pPartitionByList pSelect) walker cx)"

definition walk_case_FROM :: "SSelectStmt \<Rightarrow> 'c FNodeWalker \<Rightarrow> 'c \<Rightarrow> 'c" where
  "walk_case_FROM pSelect walker cx =
     walk_case_WHERE pSelect walker
       (nodesWalkExpr (pWhere pSelect) walker (nodesWalkExpr (pFromTable pSelect) walker cx))"

fun nodesWalkSelectStmt :: "SSelectStmt option \<Rightarrow> ESqlClause \<Rightarrow> 'c FNodeWalker \<Rightarrow> 'c \<Rightarrow> 'c" where
  "nodesWalkSelectStmt None clause walker cx = cx"
| "nodesWalkSelectStmt (Some pSelect) clause walker cx =
     (case clause of
        SQL_CLAUSE_FROM \<Rightarrow> walk_case_FROM pSelect walker cx
      | SQL_CLAUSE_WHERE \<Rightarrow> walk_case_WHERE pSelect walker cx
      | SQL_CLAUSE_PARTITION_BY \<Rightarrow> walk_case_PARTITION_BY pSelect walker cx
      | SQL_CLAUSE_WINDOW \<Rightarrow> walk_case_WINDOW pSelect walker cx
      | SQL_CLAUSE_GROUP_BY \<Rightarrow> walk_case_GROUP_BY pSelect walker cx
      | SQL_CLAUSE_HAVING \<Rightarrow> walk_case_HAVING pSelect walker cx
      | SQL_CLAUSE_DISTINCT \<Rightarrow> walk_case_HAVING pSelect walker cx
      | SQL_CLAUSE_ORDER_BY \<Rightarrow> walk_case_ORDER_BY pSelect walker cx
      | SQL_CLAUSE_PROJECTION \<Rightarrow> cx)"

text \<open>
  The rewriting driver passes the address of a clause field; after the call the field
  holds what the slot behind that address holds.
\<close>

definition store :: "('v \<Rightarrow> SSelectStmt \<Rightarrow> SSelectStmt) \<Rightarrow> 'v option \<Rightarrow> SSelectStmt \<Rightarrow> SSelectStmt" where
  "store setter slot pSelect = (case slot of None \<Rightarrow> pSelect | Some v \<Rightarrow> setter v pSelect)"

definition rewrite_case_ORDER_BY :: "nat \<Rightarrow> SSelectStmt \<Rightarrow> 'c FNodeRewriter \<Rightarrow> 'c
      \<Rightarrow> (SSelectStmt \<times> 'c) outcome" where
  "rewrite_case_ORDER_BY fuel pSelect rewriter cx =
     bind (nodesRewriteExprs fuel (pProjectionList pSelect) rewriter cx) (\<lambda>(pList, cx).
     Returns (set_pProjectionList pList pSelect, cx))"

definition rewrite_case_HAVING :: "nat \<Rightarrow> SSelectStmt \<Rightarrow> 'c FNodeRewriter \<Rightarrow> 'c
      \<Rightarrow> (SSelectStmt \<times> 'c) outcome" where
  "rewrite_case_HAVING fuel pSelect rewriter cx =
     bind (nodesRewriteExprs fuel (pOrderByList pSelect) rewriter cx) (\<lambda>(pList, cx).
     rewrite_case_ORDER_BY fuel (set_pOrderByList pList pSelect) rewriter cx)"

definition rewrite_case_GROUP_BY :: "nat \<Rightarrow> SSelectStmt \<Rightarrow> 'c FNodeRewriter \<Rightarrow> 'c
      \<Rightarrow> (SSelectStmt \<times> 'c) outcome" where
  "rewrite_case_GROUP_BY fuel pSelect rewriter cx =
     bind (nodesRewriteExpr fuel (Some (pHaving pSelect)) rewriter cx) (\<lambda>(pNode, cx).
     rewrite_case_HAVING fuel (store set_pHaving pNode pSelect) rewriter cx)"

definition rewrite_case_WINDOW :: "nat \<Rightarrow> SSelectStmt \<Rightarrow> 'c FNodeRewriter \<Rightarrow> 'c
      \<Rightarrow> (SSelectStmt \<times> 'c) outcome" where
  "rewrite_case_WINDOW fuel pSelect rewriter cx =
     bind (nodesRewriteExprs fuel (pGroupByList pSelect) rewriter cx) (\<lambda>(pList, cx).
     rewrite_case_GROUP_BY fuel (set_pGroupByList pList pSelect) rewriter cx)"

definition rewrite_case_PARTITION_BY :: "nat \<Rightarrow> SSelectStmt \<Rightarrow> 'c FNodeRewriter \<Rightarrow> 'c
      \<Rightarrow> (SSelectStmt \<times> 'c) outcome" where
  "rewrite_case_PARTITION_BY fuel pSelect rewriter cx =
     bind (nodesRewriteExpr fuel (Some (pWindow pSelect)) rewriter cx) (\<lambda>(pNode, cx).
     rewrite_case_WINDOW fuel (store set_pWindow pNode pSelect) rewriter cx)"

definition rewrite_case_WHERE :: "nat \<Rightarrow> SSelectStmt \<Rightarrow> 'c FNodeRewriter \<Rightarrow> 'c
      \<Rightarrow> (SSelectStmt \<times> 'c) outcome" where
  "rewrite_case_WHERE fuel pSelect rewriter cx =
     bind (nodesRewriteExprs fuel (pPartitionByList pSelect) rewriter cx) (\<lambda>(pList, cx).
     rewrite_case_PARTITION_BY fuel (set_pPartitionByList pList pSelect) rewriter cx)"

definition rewrite_case_FROM :: "nat \<Rightarrow> SSelectStmt \<Rightarrow> 'c FNodeRewriter \<Rightarrow> 'c
      \<Rightarrow> (SSelectStmt \<times> 'c) outcome" where
  "rewrite_case_FROM fuel pSelect rewriter cx =
     bind (nodesRewriteExpr fuel (Some (pFromTable pSelect)) rewriter cx) (\<lambda>(pNode, cx).
     bind (nodesRewriteExpr fuel (Some (pWhere pSelect)) rewriter cx) (\<lambda>(pNode', cx).
     rewrite_case_WHERE fuel (store set_pWhere pNode' (store set_pFromTable pNode pSelect))
       rewriter cx))"

fun nodesRewriteSelectStmt :: "nat \<Rightarrow> SSelectStmt option \<Rightarrow> ESqlClause \<Rightarrow> 'c FNodeRewriter \<Rightarrow> 'c
      \<Rightarrow> (SSelectStmt option \<times> 'c) outcome" where
  "nodesRewriteSelectStmt fuel None clause rewriter cx = Returns (None, cx)"
| "nodesRewriteSelectStmt fuel (Some pSelect) clause rewriter cx =
     bind (case clause of
        SQL_CLAUSE_FROM \<Rightarrow> rewrite_case_FROM fuel pSelect rewriter cx
      | SQL_CLAUSE_WHERE \<Rightarrow> rewrite_case_WHERE fuel pSelect rewriter cx
      | SQL_CLAUSE_PARTITION_BY \<Rightarrow> rewrite_case_PARTITION_BY fuel pSelect rewriter cx
      | SQL_CLAUSE_WINDOW \<Rightarrow> rewrite_case_WINDOW fuel pSelect rewriter cx
      | SQL_CLAUSE_GROUP_BY \<Rightarrow> rewrite_case_GROUP_BY fuel pSelect rewriter cx
      | SQL_CLAUSE_HAVING \<Rightarrow> rewrite_case_HAVING fuel pSelect rewriter cx
      | SQL_CLAUSE_DISTINCT \<Rightarrow> rewrite_case_HAVING fuel pSelect rewriter cx
      | SQL_CLAUSE_ORDER_BY \<Rightarrow> rewrite_case_ORDER_BY fuel pSelect rewriter cx
      | SQL_CLAUSE_PROJECTION \<Rightarrow> Returns (pSelect, cx))
     (\<lambda>(pSelect, cx). Returns (Some pSelect, cx))"


section \<open>The AST factory (astCreateFuncs.c)\<close>

text \<open>
  A token has a type, a length \<open>n\<close> and a text \<open>z\<close>. The build context carries the
  validity flag. The three identifier limits are macros defined outside the sources;
  they are parameters of the model.
\<close>

record SToken =
  tk_type :: int
  tk_n :: nat
  tk_z :: string

record SAstCreateContext =
  valid :: bool

record SNameLimits =
  TSDB_DB_NAME_LEN :: nat
  TSDB_TABLE_NAME_LEN :: nat
  TSDB_COL_NAME_LEN :: nat

text \<open>
  Modelled from the spec: the allocator \<open>nodesMakeNode\<close>, \<open>nodesMakeList\<close> and the list
  operation \<open>nodesListAppend\<close> (nodesUtilFuncs.c is not among the sources). An
  allocation may fail; the outcomes of the coming allocations are a list of booleans
  that each allocation consumes from the front, and allocation succeeds once the list
  is used up. A successful \<open>nodesMakeNode\<close> yields a zero-initialised node of the kind
  asked for, whose fields the caller then fills. Appending preserves the order and
  stores no \<open>NULL\<close> element (the spec's invariant of a NodeList); appending to a \<open>NULL\<close>
  list leaves it \<open>NULL\<close>.
\<close>

type_synonym allocs = "bool list"

fun alloc :: "allocs \<Rightarrow> bool \<times> allocs" where
  "alloc [] = (True, [])"
| "alloc (ok # mem) = (ok, mem)"

definition nodesMakeNode :: "allocs \<Rightarrow> ENodeType \<Rightarrow> bool \<times> allocs" where
  "nodesMakeNode mem type = alloc mem"

definition nodesMakeList :: "allocs \<Rightarrow> SNode option list option \<times> allocs" where
  "nodesMakeList mem = (case alloc mem of (ok, mem) \<Rightarrow> (if ok then Some [] else None, mem))"

definition nodesListAppend :: "SNode option list option \<Rightarrow> SNode option \<Rightarrow> SNode option list option" where
  "nodesListAppend pList pNode =
     (case pList of
        None \<Rightarrow> None
      | Some cells \<Rightarrow> (case pNode of None \<Rightarrow> Some cells | Some node \<Rightarrow> Some (cells @ [Some node])))"

text \<open>\<open>strncpy\<close> into a zeroed buffer: at most \<open>n\<close> characters, up to a terminator.\<close>

definition strncpy :: "string \<Rightarrow> nat \<Rightarrow> string" where
  "strncpy z n = takeWhile (\<lambda>c. c \<noteq> CHR 0x00) (take n z)"

text \<open>
  A factory call returns a node pointer and leaves the context and the allocator in a
  new state; it faults where the C code reads through a \<open>NULL\<close> token. The operations
  modelled are the ones that create a node. The operations that build a list
  (\<open>createNodeList\<close>, \<open>addNodeToList\<close>), the ones that store into an existing node
  (\<open>setProjectionAlias\<close>, \<open>addWhereClause\<close> and its siblings) and \<open>addMinusSign\<close>, whose
  body is empty, create none.
\<close>

type_synonym factory_result = "(SNode option \<times> SAstCreateContext \<times> allocs) outcome"

text \<open>The macro \<open>CHECK_OUT_OF_MEM\<close> on a \<open>NULL\<close> pointer.\<close>

definition out_of_mem :: "SAstCreateContext \<Rightarrow> allocs \<Rightarrow> factory_result" where
  "out_of_mem pCxt mem = Returns (None, pCxt\<lparr>valid := False\<rparr>, mem)"

definition checkDbName :: "SNameLimits \<Rightarrow> SAstCreateContext \<Rightarrow> SToken option \<Rightarrow> bool \<times> SAstCreateContext" where
  "checkDbName lim pCxt pDbName =
     (case pDbName of
        None \<Rightarrow> (True, pCxt)
      | Some tok \<Rightarrow> (let pCxt = pCxt\<lparr>valid := (if tk_n tok < TSDB_DB_NAME_LEN lim then True else False)\<rparr>
                    in (valid pCxt, pCxt)))"

definition checkTableName :: "SNameLimits \<Rightarrow> SAstCreateContext \<Rightarrow> SToken option \<Rightarrow> bool \<times> SAstCreateContext" where
  "checkTableName lim pCxt pTableName =
     (case pTableName of
        None \<Rightarrow> (True, pCxt)
      | Some tok \<Rightarrow> (let pCxt = pCxt\<lparr>valid := (if tk_n tok < TSDB_TABLE_NAME_LEN lim then True else False)\<rparr>
                    in (valid pCxt, pCxt)))"

definition checkColumnName :: "SNameLimits \<Rightarrow> SAstCreateContext \<Rightarrow> SToken option \<Rightarrow> bool \<times> SAstCreateContext" where
  "checkColumnName lim pCxt pColumnName =
     (case pColumnName of
        None \<Rightarrow> (True, pCxt)
      | Some tok \<Rightarrow> (let pCxt = pCxt\<lparr>valid := (if tk_n tok < TSDB_COL_NAME_LEN lim then True else False)\<rparr>
                    in (valid pCxt, pCxt)))"

definition createColumnNode :: "SNameLimits \<Rightarrow> SAstCreateContext \<Rightarrow> allocs \<Rightarrow> SToken option \<Rightarrow> SToken option
      \<Rightarrow> factory_result" where
  "createColumnNode lim pCxt mem pTableName pColumnName =
     (case checkTableName lim pCxt pTableName of (okTable, pCxt) \<Rightarrow>
      if \<not> okTable then Returns (None, pCxt, mem) else
     (case checkColumnName lim pCxt pColumnName of (okColumn, pCxt) \<Rightarrow>
      if \<not> okColumn then Returns (None, pCxt, mem) else
     (case nodesMakeNode mem QUERY_NODE_COLUMN of (col, mem) \<Rightarrow>
      if \<not> col then out_of_mem pCxt mem else
     (case pColumnName of
        None \<Rightarrow> NullDeref
      | Some colTok \<Rightarrow>
          Returns (Some (Column (case pTableName of None \<Rightarrow> [] | Some tblTok \<Rightarrow> strncpy (tk_z tblTok) (tk_n tblTok))
                                (strncpy (tk_z colTok) (tk_n colTok))), pCxt, mem)))))"

definition createValueNode :: "SAstCreateContext \<Rightarrow> allocs \<Rightarrow> int \<Rightarrow> SToken option \<Rightarrow> factory_result" where
  "createValueNode pCxt mem dataType pLiteral =
     (case nodesMakeNode mem QUERY_NODE_VALUE of (val, mem) \<Rightarrow>
      if \<not> val then out_of_mem pCxt mem else Returns (Some Value, pCxt, mem))"

definition createDurationValueNode :: "SAstCreateContext \<Rightarrow> allocs \<Rightarrow> SToken option \<Rightarrow> factory_result" where
  "createDurationValueNode pCxt mem pLiteral =
     (case nodesMakeNode mem QUERY_NODE_VALUE of (val, mem) \<Rightarrow>
      if \<not> val then out_of_mem pCxt mem else Returns (Some Value, pCxt, mem))"

definition createLogicConditionNode :: "SAstCreateContext \<Rightarrow> allocs \<Rightarrow> ELogicConditionType
      \<Rightarrow> SNode option \<Rightarrow> SNode option \<Rightarrow> factory_result" where
  "createLogicConditionNode pCxt mem type pParam1 pParam2 =
     (case nodesMakeNode mem QUERY_NODE_LOGIC_CONDITION of (cond, mem) \<Rightarrow>
      if \<not> cond then out_of_mem pCxt mem else
     (case nodesMakeList mem of (pParameterList, mem) \<Rightarrow>
      let pParameterList = nodesListAppend pParameterList pParam1;
          pParameterList = nodesListAppend pParameterList pParam2
      in Returns (Some (LogicCondition type pParameterList), pCxt, mem)))"

definition createOperatorNode :: "SAstCreateContext \<Rightarrow> allocs \<Rightarrow> EOperatorType
      \<Rightarrow> SNode option \<Rightarrow> SNode option \<Rightarrow> factory_result" where
  "createOperatorNode pCxt mem type pLeft pRight =
     (case nodesMakeNode mem QUERY_NODE_OPERATOR of (op, mem) \<Rightarrow>
      if \<not> op then out_of_mem pCxt mem else Returns (Some (Operator type pLeft pRight), pCxt, mem))"

text \<open>
  The two operator nodes are arguments of the call that builds the condition; they are
  built first, here from left to right.
\<close>

definition createBetweenAnd :: "SAstCreateContext \<Rightarrow> allocs \<Rightarrow> SNode option \<Rightarrow> SNode option \<Rightarrow> SNode option
      \<Rightarrow> factory_result" where
  "createBetweenAnd pCxt mem pExpr pLeft pRight =
     bind (createOperatorNode pCxt mem OP_TYPE_GREATER_EQUAL pExpr pLeft) (\<lambda>(pParam1, pCxt, mem).
     bind (createOperatorNode pCxt mem OP_TYPE_LOWER_EQUAL pExpr pRight) (\<lambda>(pParam2, pCxt, mem).
     createLogicConditionNode pCxt mem LOGIC_COND_TYPE_AND pParam1 pParam2))"

definition createNotBetweenAnd :: "SAstCreateContext \<Rightarrow> allocs \<Rightarrow> SNode option \<Rightarrow> SNode option \<Rightarrow> SNode option
      \<Rightarrow> factory_result" where
  "createNotBetweenAnd pCxt mem pExpr pLeft pRight =
     bind (createOperatorNode pCxt mem OP_TYPE_LOWER_THAN pExpr pLeft) (\<lambda>(pParam1, pCxt, mem).
     bind (createOperatorNode pCxt mem OP_TYPE_GREATER_THAN pExpr pRight) (\<lambda>(pParam2, pCxt, mem).
     createLogicConditionNode pCxt mem LOGIC_COND_TYPE_OR pParam1 pParam2))"

definition createIsNullCondNode :: "SAstCreateContext \<Rightarrow> allocs \<Rightarrow> SNode option \<Rightarrow> bool \<Rightarrow> factory_result" where
  "createIsNullCondNode pCxt mem pExpr isNull =
     (case nodesMakeNode mem QUERY_NODE_IS_NULL_CONDITION of (cond, mem) \<Rightarrow>
      if \<not> cond then out_of_mem pCxt mem else Returns (Some (IsNullCondition pExpr isNull), pCxt, mem))"

definition createFunctionNode :: "SAstCreateContext \<Rightarrow> allocs \<Rightarrow> SToken option \<Rightarrow> SNode option list option
      \<Rightarrow> factory_result" where
  "createFunctionNode pCxt mem pFuncName pParameterList =
     (case nodesMakeNode mem QUERY_NODE_FUNCTION of (func, mem) \<Rightarrow>
      if \<not> func then out_of_mem pCxt mem else
     (case pFuncName of
        None \<Rightarrow> NullDeref
      | Some tok \<Rightarrow> Returns (Some (Function (strncpy (tk_z tok) (tk_n tok)) pParameterList), pCxt, mem)))"

definition createNodeListNode :: "SAstCreateContext \<Rightarrow> allocs \<Rightarrow> SNode option list option \<Rightarrow> factory_result" where
  "createNodeListNode pCxt mem pList =
     (case nodesMakeNode mem QUERY_NODE_NODE_LIST of (list, mem) \<Rightarrow>
      if \<not> list then out_of_mem pCxt mem else Returns (Some (NodeListNode pList), pCxt, mem))"

definition createRealTableNode :: "SNameLimits \<Rightarrow> SAstCreateContext \<Rightarrow> allocs
      \<Rightarrow> SToken option \<Rightarrow> SToken option \<Rightarrow> SToken option \<Rightarrow> factory_result" where
  "createRealTableNode lim pCxt mem pDbName pTableName pTableAlias =
     (case checkDbName lim pCxt pDbName of (okDb, pCxt) \<Rightarrow>
      if \<not> okDb then Returns (None, pCxt, mem) else
     (case checkTableName lim pCxt pTableName of (okTable, pCxt) \<Rightarrow>
      if \<not> okTable then Returns (None, pCxt, mem) else
     (case nodesMakeNode mem QUERY_NODE_REAL_TABLE of (realTable, mem) \<Rightarrow>
      if \<not> realTable then out_of_mem pCxt mem else
     (case pTableName of
        None \<Rightarrow> NullDeref
      | Some tblTok \<Rightarrow>
          Returns (Some (RealTable (case pDbName of None \<Rightarrow> [] | Some dbTok \<Rightarrow> strncpy (tk_z dbTok) (tk_n dbTok))
                                   (strncpy (tk_z tblTok) (tk_n tblTok))), pCxt, mem)))))"

definition createTempTableNode :: "SAstCreateContext \<Rightarrow> allocs \<Rightarrow> SNode option \<Rightarrow> SToken option \<Rightarrow> factory_result" where
  "createTempTableNode pCxt mem pSubquery pTableAlias =
     (case nodesMakeNode mem QUERY_NODE_TEMP_TABLE of (tempTable, mem) \<Rightarrow>
      if \<not> tempTable then out_of_mem pCxt mem else Returns (Some (TempTable pSubquery), pCxt, mem))"

definition createJoinTableNode :: "SAstCreateContext \<Rightarrow> allocs \<Rightarrow> int \<Rightarrow> SNode option \<Rightarrow> SNode option \<Rightarrow> SNode option
      \<Rightarrow> factory_result" where
  "createJoinTableNode pCxt mem type pLeft pRight pJoinCond =
     (case nodesMakeNode mem QUERY_NODE_JOIN_TABLE of (joinTable, mem) \<Rightarrow>
      if \<not> joinTable then out_of_mem pCxt mem
      else Returns (Some (JoinTable type pLeft pRight pJoinCond), pCxt, mem))"

definition createLimitNode :: "SAstCreateContext \<Rightarrow> allocs \<Rightarrow> SToken option \<Rightarrow> SToken option \<Rightarrow> factory_result" where
  "createLimitNode pCxt mem pLimitTok pOffsetTok =
     (case nodesMakeNode mem QUERY_NODE_LIMIT of (limitNode, mem) \<Rightarrow>
      if \<not> limitNode then out_of_mem pCxt mem else Returns (Some Limit, pCxt, mem))"

definition createOrderByExprNode :: "SAstCreateContext \<Rightarrow> allocs \<Rightarrow> SNode option \<Rightarrow> int \<Rightarrow> int \<Rightarrow> factory_result" where
  "createOrderByExprNode pCxt mem pExpr order nullOrder =
     (case nodesMakeNode mem QUERY_NODE_ORDER_BY_EXPR of (orderByExpr, mem) \<Rightarrow>
      if \<not> orderByExpr then out_of_mem pCxt mem
      else Returns (Some (OrderByExpr pExpr order nullOrder), pCxt, mem))"

definition createSessionWindowNode :: "SAstCreateContext \<Rightarrow> allocs \<Rightarrow> SNode option \<Rightarrow> SToken option \<Rightarrow> factory_result" where
  "createSessionWindowNode pCxt mem pCol pVal =
     (case nodesMakeNode mem QUERY_NODE_SESSION_WINDOW of (session, mem) \<Rightarrow>
      if \<not> session then out_of_mem pCxt mem else Returns (Some (SessionWindow pCol None), pCxt, mem))"

definition createStateWindowNode :: "SAstCreateContext \<Rightarrow> allocs \<Rightarrow> SNode option \<Rightarrow> factory_result" where
  "createStateWindowNode pCxt mem pCol =
     (case nodesMakeNode mem QUERY_NODE_STATE_WINDOW of (state, mem) \<Rightarrow>
      if \<not> state then out_of_mem pCxt mem else Returns (Some (StateWindow None pCol), pCxt, mem))"

definition createIntervalWindowNode :: "SAstCreateContext \<Rightarrow> allocs
      \<Rightarrow> SNode option \<Rightarrow> SNode option \<Rightarrow> SNode option \<Rightarrow> SNode option \<Rightarrow> factory_result" where
  "createIntervalWindowNode pCxt mem pInterval pOffset pSliding pFill =
     (case nodesMakeNode mem QUERY_NODE_INTERVAL_WINDOW of (interval, mem) \<Rightarrow>
      if \<not> interval then out_of_mem pCxt mem
      else Returns (Some (IntervalWindow pInterval pOffset pSliding pFill None), pCxt, mem))"

definition createFillNode :: "SAstCreateContext \<Rightarrow> allocs \<Rightarrow> int \<Rightarrow> SNode option \<Rightarrow> factory_result" where
  "createFillNode pCxt mem mode pValues =
     (case nodesMakeNode mem QUERY_NODE_FILL of (fill, mem) \<Rightarrow>
      if \<not> fill then out_of_mem pCxt mem else Returns (Some (Fill mode pValues), pCxt, mem))"

definition createSelectStmt :: "SAstCreateContext \<Rightarrow> allocs \<Rightarrow> bool \<Rightarrow> SNode option list option \<Rightarrow> SNode option
      \<Rightarrow> factory_result" where
  "createSelectStmt pCxt mem isDistinct' pProjectionList' pTable =
     (case nodesMakeNode mem QUERY_NODE_SELECT_STMT of (select, mem) \<Rightarrow>
      if \<not> select then out_of_mem pCxt mem
      else Returns (Some (SelectStmt (SSelectStmt isDistinct' (pProjectionList' = None) pProjectionList' pTable
                                       None None None None None None None None)), pCxt, mem))"

definition createSetOperator :: "SAstCreateContext \<Rightarrow> allocs \<Rightarrow> int \<Rightarrow> SNode option \<Rightarrow> SNode option
      \<Rightarrow> factory_result" where
  "createSetOperator pCxt mem type pLeft pRight =
     (case nodesMakeNode mem QUERY_NODE_SET_OPERATOR of (setOp, mem) \<Rightarrow>
      if \<not> setOp then out_of_mem pCxt mem else Returns (Some (SetOperator type pLeft pRight), pCxt, mem))"

definition createShowStmt :: "SAstCreateContext \<Rightarrow> allocs \<Rightarrow> int \<Rightarrow> factory_result" where
  "createShowStmt pCxt mem type =
     (case nodesMakeNode mem QUERY_NODE_SHOW_STMT of (show, mem) \<Rightarrow>
      if \<not> show then out_of_mem pCxt mem else Returns (Some (ShowStmt type), pCxt, mem))"


section \<open>Observing a traversal\<close>

text \<open>
  What a traversal does is observed through its callback. \<open>recorder\<close> is a walker that
  appends the node it is given to the context and continues; \<open>visitOrder\<close> is the list
  of nodes that the C walk hands to it, so it is the order in which \<open>walkNode\<close> invokes
  a walker that never stops the traversal. \<open>logged\<close> wraps any walker so that each
  invocation, with its outcome, is appended to a log kept beside the walker's own
  context.
\<close>

definition recorder :: "SNode list FNodeWalker" where
  "recorder pNode log = (DEAL_RES_CONTINUE, log @ [pNode])"

definition visitOrder :: "ETraversalOrder \<Rightarrow> SNode option \<Rightarrow> SNode list" where
  "visitOrder order pNode = snd (walkNode pNode order recorder [])"

definition visitChildren :: "ETraversalOrder \<Rightarrow> SNode \<Rightarrow> SNode list" where
  "visitChildren order pNode = snd (walkChildren pNode order recorder [])"

definition visitList :: "ETraversalOrder \<Rightarrow> SNode option list option \<Rightarrow> SNode list" where
  "visitList order pNodeList = snd (walkList pNodeList order recorder [])"

definition logged :: "'c FNodeWalker \<Rightarrow> ('c \<times> (SNode \<times> EDealRes) list) FNodeWalker" where
  "logged walker pNode st =
     (case st of (cx, log) \<Rightarrow>
        (case walker pNode cx of (res, cx) \<Rightarrow> (res, (cx, log @ [(pNode, res)]))))"

text \<open>
  Calling a walker on the nodes of a list, one after the other, until it returns an
  outcome other than \<open>DEAL_RES_CONTINUE\<close>.
\<close>

fun visitAll :: "'c FNodeWalker \<Rightarrow> SNode list \<Rightarrow> 'c \<Rightarrow> EDealRes \<times> 'c" where
  "visitAll walker [] cx = (DEAL_RES_CONTINUE, cx)"
| "visitAll walker (pNode # rest) cx =
     (case walker pNode cx of
        (res, cx) \<Rightarrow> if res = DEAL_RES_CONTINUE then visitAll walker rest cx else (res, cx))"

text \<open>
  The cells of a list pointer, and the child slots into which the \<open>switch\<close> of
  \<open>walkNode\<close> and \<open>rewriteNode\<close> descends, in the order of the calls.
\<close>

fun cells :: "SNode option list option \<Rightarrow> SNode option list" where
  "cells None = []"
| "cells (Some nodes) = nodes"

fun subnodes :: "SNode \<Rightarrow> SNode option list" where
  "subnodes (Operator t pLeft pRight) = [pLeft, pRight]"
| "subnodes (LogicCondition t pParameterList) = cells pParameterList"
| "subnodes (Function f pParameterList) = cells pParameterList"
| "subnodes (JoinTable t pLeft pRight pOnCond) = [pLeft, pRight, pOnCond]"
| "subnodes (GroupingSet pParameterList) = cells pParameterList"
| "subnodes (OrderByExpr pExpr ord nullOrd) = [pExpr]"
| "subnodes (StateWindow pExpr pCol) = [pExpr, pCol]"
| "subnodes (SessionWindow pCol pGap) = [pCol, pGap]"
| "subnodes (IntervalWindow pInterval pOffset pSliding pFill pCol) =
     [pInterval, pOffset, pSliding, pFill, pCol]"
| "subnodes (NodeListNode pNodeList) = cells pNodeList"
| "subnodes (Fill m pValues) = [pValues]"
| "subnodes (RawExpr pNode) = [pNode]"
| "subnodes (Target pExpr) = [pExpr]"
| "subnodes pNode = []"

text \<open>
  Modelled from the spec: the fixed child layout of each kind of the data model
  (section 3 of the spec), a list being laid out as its cells and a select statement
  as its clause slots in pipeline order. The kind IsNullCondition is not part of that
  data model; no children are given for it.
\<close>

fun specLayout :: "SNode \<Rightarrow> SNode option list" where
  "specLayout (Column t c) = []"
| "specLayout Value = []"
| "specLayout Limit = []"
| "specLayout (Operator t pLeft pRight) = [pLeft, pRight]"
| "specLayout (LogicCondition t pParameterList) = cells pParameterList"
| "specLayout (Function f pParameterList) = cells pParameterList"
| "specLayout (RealTable d t) = []"
| "specLayout (TempTable pSubquery) = [pSubquery]"
| "specLayout (JoinTable t pLeft pRight pOnCond) = [pLeft, pRight, pOnCond]"
| "specLayout (GroupingSet pParameterList) = cells pParameterList"
| "specLayout (OrderByExpr pExpr ord nullOrd) = [pExpr]"
| "specLayout (StateWindow pExpr pCol) = [pExpr, pCol]"
| "specLayout (SessionWindow pCol pGap) = [pCol, pGap]"
| "specLayout (IntervalWindow pInterval pOffset pSliding pFill pCol) =
     [pInterval, pOffset, pSliding, pFill, pCol]"
| "specLayout (NodeListNode pNodeList) = cells pNodeList"
| "specLayout (Fill m pValues) = [pValues]"
| "specLayout (RawExpr pNode) = [pNode]"
| "specLayout (Target pExpr) = [pExpr]"
| "specLayout (IsNullCondition pExpr b) = []"
| "specLayout (SetOperator t pLeft pRight) = [pLeft, pRight]"
| "specLayout (SelectStmt s) =
     [pFromTable s, pWhere s] @ cells (pPartitionByList s) @ [pWindow s] @
     cells (pGroupByList s) @ [pHaving s] @ cells (pOrderByList s) @ cells (pProjectionList s)"
| "specLayout (ShowStmt t) = []"

text \<open>
  A rewriter that behaves as a given walker and leaves the slot as it is, and the
  wrapper that logs the nodes on which a rewriter is invoked.
\<close>

definition asRewriter :: "'c FNodeWalker \<Rightarrow> 'c FNodeRewriter" where
  "asRewriter walker pNode cx = (case walker pNode cx of (res, cx) \<Rightarrow> (res, Some pNode, cx))"

definition loggedRw :: "'c FNodeRewriter \<Rightarrow> ('c \<times> SNode list) FNodeRewriter" where
  "loggedRw rewriter pNode st =
     (case st of (cx, log) \<Rightarrow>
        (case rewriter pNode cx of (res, slot, cx) \<Rightarrow> (res, slot, (cx, log @ [pNode]))))"

text \<open>
  Modelled from the spec: the clause pipeline of section 4.4, the processing of the
  expressions of one clause, and the clauses the spec lets the driver process from a
  starting clause (that clause and every clause after it). \<open>DISTINCT\<close> owns no
  expression.
\<close>

definition pipeline :: "ESqlClause list" where
  "pipeline = [SQL_CLAUSE_FROM, SQL_CLAUSE_WHERE, SQL_CLAUSE_PARTITION_BY, SQL_CLAUSE_WINDOW,
               SQL_CLAUSE_GROUP_BY, SQL_CLAUSE_HAVING, SQL_CLAUSE_DISTINCT, SQL_CLAUSE_ORDER_BY,
               SQL_CLAUSE_PROJECTION]"

definition specClausesFrom :: "ESqlClause \<Rightarrow> ESqlClause list" where
  "specClausesFrom clause = dropWhile (\<lambda>c. c \<noteq> clause) pipeline"

fun walkClause :: "SSelectStmt \<Rightarrow> 'c FNodeWalker \<Rightarrow> ESqlClause \<Rightarrow> 'c \<Rightarrow> 'c" where
  "walkClause pSelect walker SQL_CLAUSE_FROM cx = nodesWalkExpr (pFromTable pSelect) walker cx"
| "walkClause pSelect walker SQL_CLAUSE_WHERE cx = nodesWalkExpr (pWhere pSelect) walker cx"
| "walkClause pSelect walker SQL_CLAUSE_PARTITION_BY cx =
     nodesWalkExprs (pPartitionByList pSelect) walker cx"
| "walkClause pSelect walker SQL_CLAUSE_WINDOW cx = nodesWalkExpr (pWindow pSelect) walker cx"
| "walkClause pSelect walker SQL_CLAUSE_GROUP_BY cx =
     nodesWalkExprs (pGroupByList pSelect) walker cx"
| "walkClause pSelect walker SQL_CLAUSE_HAVING cx = nodesWalkExpr (pHaving pSelect) walker cx"
| "walkClause pSelect walker SQL_CLAUSE_DISTINCT cx = cx"
| "walkClause pSelect walker SQL_CLAUSE_ORDER_BY cx =
     nodesWalkExprs (pOrderByList pSelect) walker cx"
| "walkClause pSelect walker SQL_CLAUSE_PROJECTION cx =
     nodesWalkExprs (pProjectionList pSelect) walker cx"

fun walkClauses :: "SSelectStmt \<Rightarrow> 'c FNodeWalker \<Rightarrow> ESqlClause list \<Rightarrow> 'c \<Rightarrow> 'c" where
  "walkClauses pSelect walker [] cx = cx"
| "walkClauses pSelect walker (clause # rest) cx =
     walkClauses pSelect walker rest (walkClause pSelect walker clause cx)"

fun rewriteClause :: "nat \<Rightarrow> 'c FNodeRewriter \<Rightarrow> ESqlClause \<Rightarrow> SSelectStmt \<times> 'c
      \<Rightarrow> (SSelectStmt \<times> 'c) outcome" where
  "rewriteClause fuel rewriter SQL_CLAUSE_FROM (pSelect, cx) =
     bind (nodesRewriteExpr fuel (Some (pFromTable pSelect)) rewriter cx) (\<lambda>(pNode, cx).
     Returns (store set_pFromTable pNode pSelect, cx))"
| "rewriteClause fuel rewriter SQL_CLAUSE_WHERE (pSelect, cx) =
     bind (nodesRewriteExpr fuel (Some (pWhere pSelect)) rewriter cx) (\<lambda>(pNode, cx).
     Returns (store set_pWhere pNode pSelect, cx))"
| "rewriteClause fuel rewriter SQL_CLAUSE_PARTITION_BY (pSelect, cx) =
     bind (nodesRewriteExprs fuel (pPartitionByList pSelect) rewriter cx) (\<lambda>(pList, cx).
     Returns (set_pPartitionByList pList pSelect, cx))"
| "rewriteClause fuel rewriter SQL_CLAUSE_WINDOW (pSelect, cx) =
     bind (nodesRewriteExpr fuel (Some (pWindow pSelect)) rewriter cx) (\<lambda>(pNode, cx).
     Returns (store set_pWindow pNode pSelect, cx))"
| "rewriteClause fuel rewriter SQL_CLAUSE_GROUP_BY (pSelect, cx) =
     bind (nodesRewriteExprs fuel (pGroupByList pSelect) rewriter cx) (\<lambda>(pList, cx).
     Returns (set_pGroupByList pList pSelect, cx))"
| "rewriteClause fuel rewriter SQL_CLAUSE_HAVING (pSelect, cx) =
     bind (nodesRewriteExpr fuel (Some (pHaving pSelect)) rewriter cx) (\<lambda>(pNode, cx).
     Returns (store set_pHaving pNode pSelect, cx))"
| "rewriteClause fuel rewriter SQL_CLAUSE_DISTINCT (pSelect, cx) = Returns (pSelect, cx)"
| "rewriteClause fuel rewriter SQL_CLAUSE_ORDER_BY (pSelect, cx) =
     bind (nodesRewriteExprs fuel (pOrderByList pSelect) rewriter cx) (\<lambda>(pList, cx).
     Returns (set_pOrderByList pList pSelect, cx))"
| "rewriteClause fuel rewriter SQL_CLAUSE_PROJECTION (pSelect, cx) =
     bind (nodesRewriteExprs fuel (pProjectionList pSelect) rewriter cx) (\<lambda>(pList, cx).
     Returns (set_pProjectionList pList pSelect, cx))"

fun rewriteClauses :: "nat \<Rightarrow> 'c FNodeRewriter \<Rightarrow> ESqlClause list \<Rightarrow> SSelectStmt \<times> 'c
      \<Rightarrow> (SSelectStmt \<times> 'c) outcome" where
  "rewriteClauses fuel rewriter [] st = Returns st"
| "rewriteClauses fuel rewriter (clause # rest) st =
     bind (rewriteClause fuel rewriter clause st) (rewriteClauses fuel rewriter rest)"

text \<open>
  The clauses that the driver's \<open>switch\<close> reaches from a starting clause: all of them
  from \<open>SQL_CLAUSE_FROM\<close>, and otherwise the ones after the starting clause.
\<close>

definition driverClauses :: "ESqlClause \<Rightarrow> ESqlClause list" where
  "driverClauses clause =
     (if clause = SQL_CLAUSE_FROM then pipeline else tl (specClausesFrom clause))"

text \<open>
  A factory call as the grammar's actions make it: the operation and its arguments
  other than the context.
\<close>

datatype factory_call =
    CreateColumnNode "SToken option" "SToken option"
  | CreateValueNode int "SToken option"
  | CreateDurationValueNode "SToken option"
  | CreateLogicConditionNode ELogicConditionType "SNode option" "SNode option"
  | CreateOperatorNode EOperatorType "SNode option" "SNode option"
  | CreateBetweenAnd "SNode option" "SNode option" "SNode option"
  | CreateNotBetweenAnd "SNode option" "SNode option" "SNode option"
  | CreateIsNullCondNode "SNode option" bool
  | CreateFunctionNode "SToken option" "SNode option list option"
  | CreateNodeListNode "SNode option list option"
  | CreateRealTableNode "SToken option" "SToken option" "SToken option"
  | CreateTempTableNode "SNode option" "SToken option"
  | CreateJoinTableNode int "SNode option" "SNode option" "SNode option"
  | CreateLimitNode "SToken option" "SToken option"
  | CreateOrderByExprNode "SNode option" int int
  | CreateSessionWindowNode "SNode option" "SToken option"
  | CreateStateWindowNode "SNode option"
  | CreateIntervalWindowNode "SNode option" "SNode option" "SNode option" "SNode option"
  | CreateFillNode int "SNode option"
  | CreateSelectStmt bool "SNode option list option" "SNode option"
  | CreateSetOperator int "SNode option" "SNode option"
  | CreateShowStmt int

fun factoryCall :: "SNameLimits \<Rightarrow> factory_call \<Rightarrow> SAstCreateContext \<Rightarrow> allocs \<Rightarrow> factory_result" where
  "factoryCall lim (CreateColumnNode t c) pCxt mem = createColumnNode lim pCxt mem t c"
| "factoryCall lim (CreateValueNode d l) pCxt mem = createValueNode pCxt mem d l"
| "factoryCall lim (CreateDurationValueNode l) pCxt mem = createDurationValueNode pCxt mem l"
| "factoryCall lim (CreateLogicConditionNode t p1 p2) pCxt mem = createLogicConditionNode pCxt mem t p1 p2"
| "factoryCall lim (CreateOperatorNode t l r) pCxt mem = createOperatorNode pCxt mem t l r"
| "factoryCall lim (CreateBetweenAnd e l r) pCxt mem = createBetweenAnd pCxt mem e l r"
| "factoryCall lim (CreateNotBetweenAnd e l r) pCxt mem = createNotBetweenAnd pCxt mem e l r"
| "factoryCall lim (CreateIsNullCondNode e b) pCxt mem = createIsNullCondNode pCxt mem e b"
| "factoryCall lim (CreateFunctionNode f ps) pCxt mem = createFunctionNode pCxt mem f ps"
| "factoryCall lim (CreateNodeListNode ps) pCxt mem = createNodeListNode pCxt mem ps"
| "factoryCall lim (CreateRealTableNode d t a) pCxt mem = createRealTableNode lim pCxt mem d t a"
| "factoryCall lim (CreateTempTableNode q a) pCxt mem = createTempTableNode pCxt mem q a"
| "factoryCall lim (CreateJoinTableNode t l r c) pCxt mem = createJoinTableNode pCxt mem t l r c"
| "factoryCall lim (CreateLimitNode l off) pCxt mem = createLimitNode pCxt mem l off"
| "factoryCall lim (CreateOrderByExprNode e ord nullOrd) pCxt mem = createOrderByExprNode pCxt mem e ord nullOrd"
| "factoryCall lim (CreateSessionWindowNode c v) pCxt mem = createSessionWindowNode pCxt mem c v"
| "factoryCall lim (CreateStateWindowNode c) pCxt mem = createStateWindowNode pCxt mem c"
| "factoryCall lim (CreateIntervalWindowNode i off s f) pCxt mem = createIntervalWindowNode pCxt mem i off s f"
| "factoryCall lim (CreateFillNode m v) pCxt mem = createFillNode pCxt mem m v"
| "factoryCall lim (CreateSelectStmt d ps t) pCxt mem = createSelectStmt pCxt mem d ps t"
| "factoryCall lim (CreateSetOperator t l r) pCxt mem = createSetOperator pCxt mem t l r"
| "factoryCall lim (CreateShowStmt t) pCxt mem = createShowStmt pCxt mem t"

text \<open>The calls that validate an identifier before they allocate.\<close>

fun checksIdentifier :: "factory_call \<Rightarrow> bool" where
  "checksIdentifier (CreateColumnNode t c) = True"
| "checksIdentifier (CreateRealTableNode d t a) = True"
| "checksIdentifier call = False"

text \<open>Concrete inputs used below.\<close>

definition setop0 :: SNode where
  "setop0 = SetOperator 0 (Some (Column [] ''a'')) (Some (Column [] ''b''))"

definition temp0 :: SNode where
  "temp0 = TempTable (Some (Column [] ''c''))"

definition select0 :: SSelectStmt where
  "select0 = SSelectStmt False False
     (Some [Some (Column [] ''p'')])
     (Some (RealTable [] ''t''))
     (Some (Column [] ''w''))
     (Some [Some (Column [] ''part'')])
     (Some (SessionWindow (Some (Column [] ''ts'')) None))
     (Some [Some (Column [] ''g'')])
     (Some (Column [] ''h''))
     (Some [Some (Column [] ''o'')])
     None None"

definition toValue :: "unit FNodeRewriter" where
  "toValue pNode cx = (DEAL_RES_CONTINUE, Some Value, cx)"

definition keepLeft :: "unit FNodeRewriter" where
  "keepLeft pNode cx =
     (case pNode of
        Operator t pLeft pRight \<Rightarrow> (DEAL_RES_CONTINUE, Some (Target pLeft), cx)
      | _ \<Rightarrow> (DEAL_RES_CONTINUE, Some pNode, cx))"

definition stopAt :: "SNode \<Rightarrow> unit FNodeWalker" where
  "stopAt target pNode cx = (if pNode = target then DEAL_RES_ERROR else DEAL_RES_CONTINUE, cx)"

definition limits0 :: SNameLimits where
  "limits0 = \<lparr>TSDB_DB_NAME_LEN = 4, TSDB_TABLE_NAME_LEN = 3, TSDB_COL_NAME_LEN = 3\<rparr>"


section \<open>Properties\<close>

subsection \<open>Sequencing\<close>

lemma andThen_continue [simp]: "andThen (DEAL_RES_CONTINUE, cx) next = next cx"
  by (simp add: andThen_def)

lemma andThen_alt:
  "andThen rc next = (if fst rc \<noteq> DEAL_RES_ERROR \<and> fst rc \<noteq> DEAL_RES_END then next (snd rc) else rc)"
  by (cases rc) (simp add: andThen_def)

lemma andThen_cong:
  "rc = rc' \<Longrightarrow> (\<And>cx. next cx = next' cx) \<Longrightarrow> andThen rc next = andThen rc' next'"
  by (cases rc') (simp add: andThen_def)

lemma andThen_assoc:
  "andThen (andThen rc f) g = andThen rc (\<lambda>cx. andThen (f cx) g)"
  by (cases rc) (simp add: andThen_def)

lemma bind_Returns [simp]: "bind (Returns x) f = f x"
  by (simp add: bind_def)

lemma bind_NullDeref [simp]: "bind NullDeref f = NullDeref"
  by (simp add: bind_def)

lemma bind_OutOfFuel [simp]: "bind OutOfFuel f = OutOfFuel"
  by (simp add: bind_def)

lemma bind_assoc: "bind (bind m f) g = bind m (\<lambda>x. bind (f x) g)"
  by (cases m) simp_all

lemma bind_cong:
  "m = m' \<Longrightarrow> (\<And>x. f x = g x) \<Longrightarrow> bind m f = bind m' g"
  by (cases m') (simp_all add: bind_def)

subsection \<open>The order of a walk\<close>

text \<open>
  The recording walker never stops a walk, and what it appends does not depend on the
  log it starts from; hence the traversal order of a node is composed of the traversal
  orders of its children.
\<close>

lemma recorder_shift_aux:
  fixes cx :: "SNode list"
  shows "w = recorder \<longrightarrow> (\<forall>l1 l2. fst (walkNode pNode order w l2) = DEAL_RES_CONTINUE \<and>
           snd (walkNode pNode order w (l1 @ l2)) = l1 @ snd (walkNode pNode order w l2))"
    and "w = recorder \<longrightarrow> (\<forall>l1 l2. fst (walkChildren n order w l2) = DEAL_RES_CONTINUE \<and>
           snd (walkChildren n order w (l1 @ l2)) = l1 @ snd (walkChildren n order w l2))"
    and "w = recorder \<longrightarrow> (\<forall>l1 l2. fst (walkList pl order w l2) = DEAL_RES_CONTINUE \<and>
           snd (walkList pl order w (l1 @ l2)) = l1 @ snd (walkList pl order w l2))"
proof (induction pNode order w cx and n order w cx and pl order w cx
       rule: walkNode_walkChildren_walkList.induct)
  case (2 pNode order walker cx)
  show ?case
  proof (intro impI allI)
    fix l1 l2 assume w: "walker = recorder"
    define y where "y = (if order = TRAVERSAL_PREORDER then cx @ [pNode] else cx)"
    have e: "(DEAL_RES_CONTINUE, y) =
        (if order = TRAVERSAL_PREORDER then walker pNode cx else (DEAL_RES_CONTINUE, cx))"
      by (simp add: w y_def recorder_def)
    have ih: "fst (walkChildren pNode order recorder b) = DEAL_RES_CONTINUE"
       "snd (walkChildren pNode order recorder (a @ b)) = a @ snd (walkChildren pNode order recorder b)" for a b
      using 2[OF e] w by blast+
    show "fst (walkNode (Some pNode) order walker l2) = DEAL_RES_CONTINUE \<and>
        snd (walkNode (Some pNode) order walker (l1 @ l2)) = l1 @ snd (walkNode (Some pNode) order walker l2)"
      unfolding w using ih
      by (cases order) (simp_all add: recorder_def split_beta)
  qed
next
  case (27 node rest order walker cx)
  show ?case
  proof (intro impI allI)
    fix l1 l2 assume w: "walker = recorder"
    have ih1: "fst (walkNode node order recorder b) = DEAL_RES_CONTINUE"
       "snd (walkNode node order recorder (a @ b)) = a @ snd (walkNode node order recorder b)" for a b
      using 27(1) w by blast+
    have e: "(DEAL_RES_CONTINUE, snd (walkNode node order walker cx)) = walkNode node order walker cx"
      using ih1(1)[of cx] unfolding w by (metis prod.collapse)
    have ih2: "fst (walkList (Some rest) order recorder b) = DEAL_RES_CONTINUE"
       "snd (walkList (Some rest) order recorder (a @ b)) = a @ snd (walkList (Some rest) order recorder b)" for a b
      using 27(2)[OF e] w by blast+
    show "fst (walkList (Some (node # rest)) order walker l2) = DEAL_RES_CONTINUE \<and>
        snd (walkList (Some (node # rest)) order walker (l1 @ l2)) =
        l1 @ snd (walkList (Some (node # rest)) order walker l2)"
      unfolding w by (simp add: ih1 ih2 split_beta)
  qed
qed (simp_all add: andThen_alt)

lemma walkNode_recorder:
  "walkNode pNode order recorder log = (DEAL_RES_CONTINUE, log @ visitOrder order pNode)"
  using recorder_shift_aux(1)[of recorder pNode order] recorder_shift_aux(1)[of recorder pNode order]
  by (metis visitOrder_def prod.collapse append_Nil2)

lemma walkChildren_recorder:
  "walkChildren n order recorder log = (DEAL_RES_CONTINUE, log @ visitChildren order n)"
  using recorder_shift_aux(2)[of recorder n order] recorder_shift_aux(2)[of recorder n order]
  by (metis visitChildren_def prod.collapse append_Nil2)

lemma walkList_recorder:
  "walkList pl order recorder log = (DEAL_RES_CONTINUE, log @ visitList order pl)"
  using recorder_shift_aux(3)[of recorder pl order] recorder_shift_aux(3)[of recorder pl order]
  by (metis visitList_def prod.collapse append_Nil2)

lemma visitOrder_None [simp]: "visitOrder order None = []"
  by (simp add: visitOrder_def)

lemma visitOrder_Some:
  "visitOrder order (Some n) =
     (if order = TRAVERSAL_PREORDER then [n] else []) @ visitChildren order n @
     (if order = TRAVERSAL_POSTORDER then [n] else [])"
proof -
  have "walkNode (Some n) order recorder [] =
      (DEAL_RES_CONTINUE, (if order = TRAVERSAL_PREORDER then [n] else []) @ visitChildren order n @
         (if order = TRAVERSAL_POSTORDER then [n] else []))"
    by (cases order) (simp_all add: walkChildren_recorder recorder_def)
  then show ?thesis by (simp add: visitOrder_def)
qed

lemma visitList_simps [simp]:
  "visitList order None = []"
  "visitList order (Some []) = []"
  "visitList order (Some (node # rest)) = visitOrder order node @ visitList order (Some rest)"
proof -
  show "visitList order (Some (node # rest)) = visitOrder order node @ visitList order (Some rest)"
    unfolding visitList_def[of order "Some (node # rest)"]
    by (simp add: walkNode_recorder walkList_recorder[of "Some rest"])
qed (simp_all add: visitList_def)

lemma visitChildren_simps [simp]:
  "visitChildren order (Column tn cn) = []"
  "visitChildren order Value = []"
  "visitChildren order Limit = []"
  "visitChildren order (Operator ot pLeft pRight) = visitOrder order pLeft @ visitOrder order pRight"
  "visitChildren order (LogicCondition ct pParameterList) = visitList order pParameterList"
  "visitChildren order (Function fn pParameterList) = visitList order pParameterList"
  "visitChildren order (RealTable dn tn) = []"
  "visitChildren order (TempTable pSubquery) = []"
  "visitChildren order (JoinTable jt pLeft pRight pOnCond) =
     visitOrder order pLeft @ visitOrder order pRight @ visitOrder order pOnCond"
  "visitChildren order (GroupingSet pParameterList) = visitList order pParameterList"
  "visitChildren order (OrderByExpr pExpr ord nullOrd) = visitOrder order pExpr"
  "visitChildren order (StateWindow pExpr pCol) = visitOrder order pExpr @ visitOrder order pCol"
  "visitChildren order (SessionWindow pCol pGap) = visitOrder order pCol @ visitOrder order pGap"
  "visitChildren order (IntervalWindow pInterval pOffset pSliding pFill pCol) =
     visitOrder order pInterval @ visitOrder order pOffset @ visitOrder order pSliding @
     visitOrder order pFill @ visitOrder order pCol"
  "visitChildren order (NodeListNode pNodeList) = visitList order pNodeList"
  "visitChildren order (Fill fm pValues) = visitOrder order pValues"
  "visitChildren order (RawExpr pNode) = visitOrder order pNode"
  "visitChildren order (Target pExpr) = visitOrder order pExpr"
  "visitChildren order (IsNullCondition pExpr isNull) = []"
  "visitChildren order (SetOperator st pLeft pRight) = []"
  "visitChildren order (SelectStmt sel) = []"
  "visitChildren order (ShowStmt sh) = []"
  by (simp_all add: visitChildren_def walkNode_recorder walkList_recorder)

lemma visitList_cells: "visitList order pl = concat (map (visitOrder order) (cells pl))"
proof (cases pl)
  case None
  then show ?thesis by simp
next
  case (Some nodes)
  have "visitList order (Some nodes) = concat (map (visitOrder order) nodes)"
    by (induction nodes) simp_all
  then show ?thesis using Some by simp
qed

lemma visitChildren_subnodes: "visitChildren order n = concat (map (visitOrder order) (subnodes n))"
  by (cases n) (simp_all add: visitList_cells)

subsection \<open>A walk is a sequence of visits\<close>

text \<open>
  For every walker, walking a tree is calling the walker on the nodes of the traversal
  order, one after the other, up to the first outcome that is not
  \<open>DEAL_RES_CONTINUE\<close>.
\<close>

lemma visitAll_append:
  "visitAll walker (xs @ ys) cx = andThen (visitAll walker xs cx) (visitAll walker ys)"
proof (induction xs arbitrary: cx)
  case Nil
  show ?case by simp
next
  case (Cons x xs)
  obtain res cx1 where r: "walker x cx = (res, cx1)" by (cases "walker x cx")
  show ?case using Cons r by (cases res) (simp_all add: andThen_def)
qed

lemma visitAll_single: "visitAll walker [n] cx = walker n cx"
  by (cases "walker n cx") simp

lemma walk_visitAll:
  "walkNode pNode order walker cx = visitAll walker (visitOrder order pNode) cx"
  "walkChildren n order walker cx = visitAll walker (visitChildren order n) cx"
  "walkList pl order walker cx = visitAll walker (visitList order pl) cx"
proof (induction pNode order walker cx and n order walker cx and pl order walker cx
       rule: walkNode_walkChildren_walkList.induct)
  case (2 pNode order walker cx)
  show ?case
  proof (cases order)
    case TRAVERSAL_PREORDER
    obtain res cx1 where r: "walker pNode cx = (res, cx1)" by (cases "walker pNode cx")
    show ?thesis
    proof (cases "res = DEAL_RES_CONTINUE")
      case True
      have "walkChildren pNode order walker cx1 = visitAll walker (visitChildren order pNode) cx1"
        by (rule 2) (simp_all add: TRAVERSAL_PREORDER r True)
      then show ?thesis using r True TRAVERSAL_PREORDER by (simp add: visitOrder_Some)
    next
      case False
      then show ?thesis using r TRAVERSAL_PREORDER by (simp add: visitOrder_Some)
    qed
  next
    case TRAVERSAL_INORDER
    have "walkChildren pNode order walker cx = visitAll walker (visitChildren order pNode) cx"
      by (rule 2) (simp_all add: TRAVERSAL_INORDER)
    then show ?thesis using TRAVERSAL_INORDER by (simp add: visitOrder_Some split_beta)
  next
    case TRAVERSAL_POSTORDER
    have "walkChildren pNode order walker cx = visitAll walker (visitChildren order pNode) cx"
      by (rule 2) (simp_all add: TRAVERSAL_POSTORDER)
    moreover obtain res2 cx2 where "visitAll walker (visitChildren order pNode) cx = (res2, cx2)"
      by (cases "visitAll walker (visitChildren order pNode) cx")
    ultimately show ?thesis using TRAVERSAL_POSTORDER
      by (cases res2)
         (simp_all add: visitOrder_Some visitAll_append andThen_def visitAll_single del: visitAll.simps(2))
  qed
next
  case (27 node rest order walker cx)
  obtain res cx1 where r: "walkNode node order walker cx = (res, cx1)"
    by (cases "walkNode node order walker cx")
  have v: "visitAll walker (visitOrder order node) cx = (res, cx1)"
    using 27(1) r by simp
  show ?case
  proof (cases "res = DEAL_RES_ERROR \<or> res = DEAL_RES_END")
    case True
    then show ?thesis using r v by (auto simp add: visitAll_append andThen_def)
  next
    case False
    have "walkList (Some rest) order walker cx1 = visitAll walker (visitList order (Some rest)) cx1"
      using False by (intro 27(2)) (auto simp add: r)
    then show ?thesis using r v False by (simp add: visitAll_append andThen_def)
  qed
qed (simp_all add: visitAll_append andThen_assoc cong: andThen_cong)

lemma logged_apply:
  "walker pNode cx = (res, cx1) \<Longrightarrow> logged walker pNode (cx, log) = (res, (cx1, log @ [(pNode, res)]))"
  by (simp add: logged_def)

lemma visitAll_logged:
  "visitAll (logged walker) ns (cx, log0) = (res, (cx', log)) \<Longrightarrow>
     \<exists>new. log = log0 @ new \<and> prefix (map fst new) ns \<and>
       (\<forall>e \<in> set (butlast new). snd e = DEAL_RES_CONTINUE) \<and>
       (if new = [] then res = DEAL_RES_CONTINUE else snd (last new) = res) \<and>
       (res = DEAL_RES_CONTINUE \<longrightarrow> map fst new = ns)"
proof (induction ns arbitrary: cx log0)
  case Nil
  then show ?case by simp
next
  case (Cons n ns)
  obtain r cx1 where w: "walker n cx = (r, cx1)" by (cases "walker n cx")
  show ?case
  proof (cases "r = DEAL_RES_CONTINUE")
    case True
    with Cons.prems w have "visitAll (logged walker) ns (cx1, log0 @ [(n, r)]) = (res, (cx', log))"
      by (simp add: logged_apply)
    from Cons.IH[OF this] obtain new where new: "log = (log0 @ [(n, r)]) @ new"
      "prefix (map fst new) ns" "\<forall>e \<in> set (butlast new). snd e = DEAL_RES_CONTINUE"
      "if new = [] then res = DEAL_RES_CONTINUE else snd (last new) = res"
      "res = DEAL_RES_CONTINUE \<longrightarrow> map fst new = ns"
      by blast
    show ?thesis
    proof (intro exI[of _ "(n, r) # new"] conjI)
      show "log = log0 @ (n, r) # new" using new(1) by simp
      show "prefix (map fst ((n, r) # new)) (n # ns)" using new(2) by simp
      show "\<forall>e\<in>set (butlast ((n, r) # new)). snd e = DEAL_RES_CONTINUE"
        using new(3) True by (cases new) auto
      show "if (n, r) # new = [] then res = DEAL_RES_CONTINUE else snd (last ((n, r) # new)) = res"
        using new(4) True by (cases new) auto
      show "res = DEAL_RES_CONTINUE \<longrightarrow> map fst ((n, r) # new) = n # ns" using new(5) by simp
    qed
  next
    case False
    with Cons.prems w have "res = r" "log = log0 @ [(n, r)]"
      by (auto simp add: logged_apply)
    then show ?thesis using False by (intro exI[of _ "[(n, r)]"]) simp
  qed
qed

lemma logged_stops:
  assumes "visitAll (logged walker) ns (cx, []) = (res, (cx', log))"
    and "(n, r) \<in> set log" and "r \<noteq> DEAL_RES_CONTINUE"
  shows "last log = (n, r) \<and> (\<forall>e \<in> set (butlast log). snd e = DEAL_RES_CONTINUE) \<and> res = r \<and>
         prefix (map fst log) ns"
proof -
  from visitAll_logged[OF assms(1)] have p: "prefix (map fst log) ns"
    and b: "\<forall>e \<in> set (butlast log). snd e = DEAL_RES_CONTINUE"
    and l: "if log = [] then res = DEAL_RES_CONTINUE else snd (last log) = res"
    by auto
  have ne: "log \<noteq> []" using assms(2) by auto
  then have "log = butlast log @ [last log]" by simp
  then have "(n, r) \<in> set (butlast log) \<or> (n, r) = last log"
    using assms(2) by (metis Un_iff empty_iff empty_set set_ConsD set_append)
  with b assms(3) have "last log = (n, r)" by auto
  with p b l ne show ?thesis by auto
qed

text \<open>
  C5. Short circuit of a walk. Take any node or list, any order and any walker, and log
  the walker's invocations. If some invocation, on a node \<open>n\<close>, returned an outcome \<open>r\<close>
  other than \<open>DEAL_RES_CONTINUE\<close> (that is, \<open>DEAL_RES_ERROR\<close> or \<open>DEAL_RES_END\<close>), then it
  is the last invocation of the walk, every earlier invocation returned
  \<open>DEAL_RES_CONTINUE\<close>, the walk returns \<open>r\<close> itself, and the nodes visited are an initial
  segment of the traversal order: no node later in that order is visited.
\<close>

theorem walk_short_circuit:
  "(walkNode pNode order (logged walker) (cx, []) = (res, (cx', log)) \<and>
      (n, r) \<in> set log \<and> r \<noteq> DEAL_RES_CONTINUE \<longrightarrow>
        last log = (n, r) \<and> (\<forall>e \<in> set (butlast log). snd e = DEAL_RES_CONTINUE) \<and> res = r \<and>
        prefix (map fst log) (visitOrder order pNode)) \<and>
   (walkList pNodeList order (logged walker) (cx, []) = (res, (cx', log)) \<and>
      (n, r) \<in> set log \<and> r \<noteq> DEAL_RES_CONTINUE \<longrightarrow>
        last log = (n, r) \<and> (\<forall>e \<in> set (butlast log). snd e = DEAL_RES_CONTINUE) \<and> res = r \<and>
        prefix (map fst log) (visitList order pNodeList))"
  using logged_stops[of walker "visitOrder order pNode" cx res cx' log n r]
        logged_stops[of walker "visitList order pNodeList" cx res cx' log n r]
  by (simp add: walk_visitAll)

theorem walk_short_circuit_witness:
  "walkNode (Some (Operator OP_TYPE_LOWER_THAN (Some (Column [] ''a'')) (Some (Column [] ''b''))))
       TRAVERSAL_PREORDER (logged (stopAt (Column [] ''a''))) ((), []) =
     (DEAL_RES_ERROR, ((),
        [(Operator OP_TYPE_LOWER_THAN (Some (Column [] ''a'')) (Some (Column [] ''b'')), DEAL_RES_CONTINUE),
         (Column [] ''a'', DEAL_RES_ERROR)])) \<and>
   prefix [Operator OP_TYPE_LOWER_THAN (Some (Column [] ''a'')) (Some (Column [] ''b'')), Column [] ''a'']
     (visitOrder TRAVERSAL_PREORDER
        (Some (Operator OP_TYPE_LOWER_THAN (Some (Column [] ''a'')) (Some (Column [] ''b'')))))"
  using walk_short_circuit[of
      "Some (Operator OP_TYPE_LOWER_THAN (Some (Column [] ''a'')) (Some (Column [] ''b'')))"
      TRAVERSAL_PREORDER "stopAt (Column [] ''a'')" "()" DEAL_RES_ERROR "()"
      "[(Operator OP_TYPE_LOWER_THAN (Some (Column [] ''a'')) (Some (Column [] ''b'')), DEAL_RES_CONTINUE),
        (Column [] ''a'', DEAL_RES_ERROR)]"
      "Column [] ''a''" DEAL_RES_ERROR]
  by (simp add: logged_def stopAt_def andThen_def)

text \<open>
  C7. Pre-order and post-order. In pre-order the traversal order of a node is the node
  itself followed by the traversal orders of the child slots the engine descends into,
  in their order; in post-order it is those traversal orders followed by the node.
  Whatever the walker, the nodes on which it is invoked are an initial segment of that
  order, so a node is seen before everything below it in pre-order and after everything
  below it in post-order.
\<close>

theorem walk_pre_post_order:
  "visitOrder TRAVERSAL_PREORDER (Some pNode) =
     pNode # concat (map (visitOrder TRAVERSAL_PREORDER) (subnodes pNode)) \<and>
   visitOrder TRAVERSAL_POSTORDER (Some pNode) =
     concat (map (visitOrder TRAVERSAL_POSTORDER) (subnodes pNode)) @ [pNode] \<and>
   prefix (map fst (snd (snd (walkNode (Some pNode) order (logged walker) (cx, [])))))
     (visitOrder order (Some pNode))"
proof -
  obtain res cx' log where w: "walkNode (Some pNode) order (logged walker) (cx, []) = (res, (cx', log))"
    by (metis prod.collapse)
  then have "visitAll (logged walker) (visitOrder order (Some pNode)) (cx, []) = (res, (cx', log))"
    by (simp add: walk_visitAll)
  from visitAll_logged[OF this] have "prefix (map fst log) (visitOrder order (Some pNode))"
    by auto
  then show ?thesis using w by (simp add: visitOrder_Some visitChildren_subnodes)
qed

subsection \<open>Rewriting\<close>

text \<open>
  With a rewriter that leaves every slot as it is, and fuel beyond the size of the
  tree, the rewrite returns, leaves the tree as it is and calls the rewriter as the walk
  calls the walker.
\<close>

lemma rewrite_as_walk_aux:
  "rw = asRewriter w \<longrightarrow> size_option size p \<le> fuel \<longrightarrow>
     rewriteSlot fuel p order rw cx = Returns (fst (walkNode p order w cx), p, snd (walkNode p order w cx))"
  "rw = asRewriter w \<longrightarrow> size n \<le> fuel \<longrightarrow>
     rewriteChildren fuel n order rw cx = Returns (fst (walkChildren n order w cx), n, snd (walkChildren n order w cx))"
  "rw = asRewriter w \<longrightarrow> size_option (size_list (size_option size)) pl \<le> fuel \<longrightarrow>
     rewriteList fuel pl order rw cx = Returns (fst (walkList pl order w cx), pl, snd (walkList pl order w cx))"
proof (induction fuel p order rw cx and fuel n order rw cx and fuel pl order rw cx
       rule: rewriteSlot_rewriteChildren_rewriteList.induct)
  case (3 fuel pNode order rewriter cx)
  show ?case
  proof (intro impI)
    assume rw: "rewriter = asRewriter w" and sz: "size_option size (Some pNode) \<le> Suc fuel"
    obtain res cx1 where r: "(if order = TRAVERSAL_PREORDER then w pNode cx else (DEAL_RES_CONTINUE, cx)) = (res, cx1)"
      by (cases "if order = TRAVERSAL_PREORDER then w pNode cx else (DEAL_RES_CONTINUE, cx)")
    have r': "(res, Some pNode, cx1) =
       (if order = TRAVERSAL_PREORDER then rewriter pNode cx else (DEAL_RES_CONTINUE, Some pNode, cx))"
      using r by (auto simp add: rw asRewriter_def split: if_splits)
    show "rewriteSlot (Suc fuel) (Some pNode) order rewriter cx =
       Returns (fst (walkNode (Some pNode) order w cx), Some pNode, snd (walkNode (Some pNode) order w cx))"
    proof (cases "order = TRAVERSAL_PREORDER \<and> res \<noteq> DEAL_RES_CONTINUE")
      case True
      then show ?thesis using r r'[symmetric] by (auto split: if_splits)
    next
      case False
      have ih: "rewriteChildren fuel pNode order rewriter cx1 =
          Returns (fst (walkChildren pNode order w cx1), pNode, snd (walkChildren pNode order w cx1))"
        using 3[OF r' refl False refl] rw sz by simp
      show ?thesis using False r r'[symmetric] ih
        by (auto simp add: rw asRewriter_def split_beta split: if_splits)
    qed
  qed
qed (simp_all add: andThen_alt split_beta)

lemma rewrite_as_walk:
  "size pNode < fuel \<Longrightarrow>
     rewriteSlot fuel (Some pNode) order (asRewriter walker) cx =
       Returns (fst (walkNode (Some pNode) order walker cx), Some pNode,
                snd (walkNode (Some pNode) order walker cx))"
  using rewrite_as_walk_aux(1)[of "asRewriter walker" walker "Some pNode" fuel order cx]
  by simp

lemma specLayout_subnodes:
  "nodeType pNode \<notin> {QUERY_NODE_TEMP_TABLE, QUERY_NODE_SET_OPERATOR, QUERY_NODE_SELECT_STMT,
      QUERY_NODE_IS_NULL_CONDITION} \<Longrightarrow> specLayout pNode = subnodes pNode"
  by (cases pNode) simp_all

text \<open>
  C4, as amended. For every kind of the data model other than TempTable, SetOperator
  and SelectStmt, walk and rewrite descend into exactly the children of the kind's
  layout, in the layout's order: with a callback that records and never stops, the
  walk visits the node and then the subtrees of its layout (after them, in post-order),
  and the rewrite with a rewriter that leaves every slot as it is invokes the rewriter
  on the same nodes in the same order and, given fuel beyond the size of the node,
  returns the node unchanged.
\<close>

theorem walk_rewrite_child_layout:
  assumes "nodeType pNode \<notin> {QUERY_NODE_TEMP_TABLE, QUERY_NODE_SET_OPERATOR,
             QUERY_NODE_SELECT_STMT, QUERY_NODE_IS_NULL_CONDITION}"
  shows "visitOrder TRAVERSAL_PREORDER (Some pNode) =
           pNode # concat (map (visitOrder TRAVERSAL_PREORDER) (specLayout pNode)) \<and>
         visitOrder TRAVERSAL_POSTORDER (Some pNode) =
           concat (map (visitOrder TRAVERSAL_POSTORDER) (specLayout pNode)) @ [pNode] \<and>
         (size pNode < fuel \<longrightarrow>
            rewriteSlot fuel (Some pNode) TRAVERSAL_PREORDER (asRewriter recorder) log =
              Returns (DEAL_RES_CONTINUE, Some pNode,
                log @ pNode # concat (map (visitOrder TRAVERSAL_PREORDER) (specLayout pNode))) \<and>
            rewriteSlot fuel (Some pNode) TRAVERSAL_POSTORDER (asRewriter recorder) log =
              Returns (DEAL_RES_CONTINUE, Some pNode,
                log @ concat (map (visitOrder TRAVERSAL_POSTORDER) (specLayout pNode)) @ [pNode]))"
  using specLayout_subnodes[OF assms]
  by (simp add: rewrite_as_walk walkNode_recorder visitOrder_Some visitChildren_subnodes)

theorem walk_rewrite_child_layout_witness:
  "nodeType (Operator OP_TYPE_LOWER_THAN (Some (Column [] ''a'')) (Some Value)) \<notin>
     {QUERY_NODE_TEMP_TABLE, QUERY_NODE_SET_OPERATOR, QUERY_NODE_SELECT_STMT, QUERY_NODE_IS_NULL_CONDITION} \<and>
   size (Operator OP_TYPE_LOWER_THAN (Some (Column [] ''a'')) (Some Value)) < 4 \<and>
   visitOrder TRAVERSAL_PREORDER (Some (Operator OP_TYPE_LOWER_THAN (Some (Column [] ''a'')) (Some Value))) =
     [Operator OP_TYPE_LOWER_THAN (Some (Column [] ''a'')) (Some Value), Column [] ''a'', Value] \<and>
   rewriteSlot 4 (Some (Operator OP_TYPE_LOWER_THAN (Some (Column [] ''a'')) (Some Value)))
       TRAVERSAL_POSTORDER (asRewriter recorder) [] =
     Returns (DEAL_RES_CONTINUE, Some (Operator OP_TYPE_LOWER_THAN (Some (Column [] ''a'')) (Some Value)),
       [Column [] ''a'', Value, Operator OP_TYPE_LOWER_THAN (Some (Column [] ''a'')) (Some Value)])"
  using walk_rewrite_child_layout[of "Operator OP_TYPE_LOWER_THAN (Some (Column [] ''a'')) (Some Value)" 4 "[]"]
  by (simp add: visitOrder_Some)

theorem walk_rewrite_child_layout_counterexample:
  "specLayout setop0 = [Some (Column [] ''a''), Some (Column [] ''b'')] \<and>
   visitOrder TRAVERSAL_PREORDER (Some setop0) = [setop0] \<and>
   rewriteSlot 5 (Some setop0) TRAVERSAL_PREORDER (asRewriter recorder) [] =
     Returns (DEAL_RES_CONTINUE, Some setop0, [setop0]) \<and>
   specLayout (SelectStmt select0) =
     [Some (RealTable [] ''t''), Some (Column [] ''w''), Some (Column [] ''part''),
      Some (SessionWindow (Some (Column [] ''ts'')) None), Some (Column [] ''g''),
      Some (Column [] ''h''), Some (Column [] ''o''), Some (Column [] ''p'')] \<and>
   visitOrder TRAVERSAL_PREORDER (Some (SelectStmt select0)) = [SelectStmt select0] \<and>
   rewriteSlot 5 (Some (SelectStmt select0)) TRAVERSAL_PREORDER (asRewriter recorder) [] =
     Returns (DEAL_RES_CONTINUE, Some (SelectStmt select0), [SelectStmt select0]) \<and>
   specLayout temp0 = [Some (Column [] ''c'')] \<and>
   visitOrder TRAVERSAL_PREORDER (Some temp0) = [temp0] \<and>
   rewriteSlot 5 (Some temp0) TRAVERSAL_PREORDER (asRewriter recorder) [] =
     Returns (DEAL_RES_CONTINUE, Some temp0, [temp0])"
  by (simp add: visitOrder_def setop0_def temp0_def select0_def recorder_def asRewriter_def
        eval_nat_numeral)

lemma loggedRw_apply:
  "rewriter pNode cx = (res, slot, cx1) \<Longrightarrow>
     loggedRw rewriter pNode (cx, log) = (res, slot, (cx1, log @ [pNode]))"
  by (simp add: loggedRw_def)

text \<open>
  C6, as amended. Replacement in pre-order. When the rewriter, invoked in pre-order on
  the node in a slot, stores another node there and continues, the engine goes on with
  the children of the stored node and reads nothing of the original: the result is the
  same for any original on which the rewriter returns the same. So the rewriter is
  invoked on a former child of the original only where the stored node holds it; when
  the stored node is of a kind without children (Column, Value, Limit) the rewriter is
  invoked on the original node and on nothing else.
\<close>

theorem rewrite_preorder_replacement:
  assumes "rewriter pNode cx = (DEAL_RES_CONTINUE, Some pNew, cx1)"
  shows "rewriteSlot (Suc fuel) (Some pNode) TRAVERSAL_PREORDER rewriter cx =
           bind (rewriteChildren fuel pNew TRAVERSAL_PREORDER rewriter cx1)
             (\<lambda>(res, pNew, cx). Returns (res, Some pNew, cx)) \<and>
         (rewriter pOther cx = rewriter pNode cx \<longrightarrow>
            rewriteSlot (Suc fuel) (Some pOther) TRAVERSAL_PREORDER rewriter cx =
            rewriteSlot (Suc fuel) (Some pNode) TRAVERSAL_PREORDER rewriter cx) \<and>
         (nodeType pNew \<in> {QUERY_NODE_COLUMN, QUERY_NODE_VALUE, QUERY_NODE_LIMIT} \<longrightarrow>
            rewriteSlot (Suc fuel) (Some pNode) TRAVERSAL_PREORDER (loggedRw rewriter) (cx, []) =
              Returns (DEAL_RES_CONTINUE, Some pNew, (cx1, [pNode])))"
proof (intro conjI impI)
  show "rewriteSlot (Suc fuel) (Some pNode) TRAVERSAL_PREORDER rewriter cx =
      bind (rewriteChildren fuel pNew TRAVERSAL_PREORDER rewriter cx1)
        (\<lambda>(res, pNew, cx). Returns (res, Some pNew, cx))"
    using assms by (simp add: bind_def split: outcome.splits)
  show "rewriteSlot (Suc fuel) (Some pOther) TRAVERSAL_PREORDER rewriter cx =
      rewriteSlot (Suc fuel) (Some pNode) TRAVERSAL_PREORDER rewriter cx"
    if "rewriter pOther cx = rewriter pNode cx"
    using that by simp
  show "rewriteSlot (Suc fuel) (Some pNode) TRAVERSAL_PREORDER (loggedRw rewriter) (cx, []) =
      Returns (DEAL_RES_CONTINUE, Some pNew, (cx1, [pNode]))"
    if "nodeType pNew \<in> {QUERY_NODE_COLUMN, QUERY_NODE_VALUE, QUERY_NODE_LIMIT}"
    using that loggedRw_apply[of rewriter pNode cx DEAL_RES_CONTINUE "Some pNew" cx1 "[]"] assms
    by (cases pNew) simp_all
qed

theorem rewrite_preorder_replacement_witness:
  "toValue (Operator OP_TYPE_LOWER_THAN (Some (Column [] ''a'')) (Some (Column [] ''b''))) () =
     (DEAL_RES_CONTINUE, Some Value, ()) \<and>
   toValue (Target (Some (Column [] ''c''))) () =
     toValue (Operator OP_TYPE_LOWER_THAN (Some (Column [] ''a'')) (Some (Column [] ''b''))) () \<and>
   rewriteSlot (Suc 0) (Some (Target (Some (Column [] ''c'')))) TRAVERSAL_PREORDER toValue () =
     rewriteSlot (Suc 0) (Some (Operator OP_TYPE_LOWER_THAN (Some (Column [] ''a'')) (Some (Column [] ''b''))))
       TRAVERSAL_PREORDER toValue () \<and>
   nodeType Value \<in> {QUERY_NODE_COLUMN, QUERY_NODE_VALUE, QUERY_NODE_LIMIT} \<and>
   rewriteSlot (Suc 0) (Some (Operator OP_TYPE_LOWER_THAN (Some (Column [] ''a'')) (Some (Column [] ''b''))))
       TRAVERSAL_PREORDER (loggedRw toValue) ((), []) =
     Returns (DEAL_RES_CONTINUE, Some Value,
       ((), [Operator OP_TYPE_LOWER_THAN (Some (Column [] ''a'')) (Some (Column [] ''b''))]))"
  using rewrite_preorder_replacement[where rewriter = toValue
      and pNode = "Operator OP_TYPE_LOWER_THAN (Some (Column [] ''a'')) (Some (Column [] ''b''))"
      and cx = "()" and pNew = Value and ?cx1.0 = "()"
      and pOther = "Target (Some (Column [] ''c''))" and fuel = 0]
  by (simp add: toValue_def)

theorem rewrite_preorder_replacement_counterexample:
  "rewriteSlot 2 (Some (Operator OP_TYPE_LOWER_THAN (Some (Column [] ''a'')) (Some (Column [] ''b''))))
       TRAVERSAL_PREORDER (loggedRw keepLeft) ((), []) =
     Returns (DEAL_RES_CONTINUE, Some (Target (Some (Column [] ''a''))),
       ((), [Operator OP_TYPE_LOWER_THAN (Some (Column [] ''a'')) (Some (Column [] ''b'')),
             Column [] ''a'']))"
  by (simp add: loggedRw_def keepLeft_def eval_nat_numeral)

text \<open>
  C10. Absent nodes. Walking a \<open>NULL\<close> node or list returns \<open>DEAL_RES_CONTINUE\<close> and leaves
  the context as it was, whatever the walker; rewriting through a \<open>NULL\<close> slot pointer,
  or a slot that holds \<open>NULL\<close>, returns \<open>DEAL_RES_CONTINUE\<close> with slot and context as they
  were, whatever the rewriter and the fuel; walking or rewriting a \<open>NULL\<close> select
  statement returns with the context as it was. The callback is invoked in none of
  these cases: the result does not depend on it.
\<close>

theorem null_is_skipped:
  "walkNode None order walker cx = (DEAL_RES_CONTINUE, cx) \<and>
   walkList None order walker cx = (DEAL_RES_CONTINUE, cx) \<and>
   rewriteNode fuel None order rewriter cx = Returns (DEAL_RES_CONTINUE, None, cx) \<and>
   rewriteNode fuel (Some None) order rewriter cx = Returns (DEAL_RES_CONTINUE, Some None, cx) \<and>
   rewriteList fuel None order rewriter cx = Returns (DEAL_RES_CONTINUE, None, cx) \<and>
   nodesWalkSelectStmt None clause walker cx = cx \<and>
   nodesRewriteSelectStmt fuel None clause rewriter cx = Returns (None, cx)"
  by (simp add: rewriteNode_def)

subsection \<open>The select driver\<close>

lemma select_get_set [simp]:
  "pFromTable (set_pWhere v s) = pFromTable s"
  "pWhere (set_pFromTable v s) = pWhere s"
  "pPartitionByList (set_pFromTable v s) = pPartitionByList s"
  "pPartitionByList (set_pWhere v s) = pPartitionByList s"
  "pWindow (set_pPartitionByList l s) = pWindow s"
  "pGroupByList (set_pWindow v s) = pGroupByList s"
  "pHaving (set_pGroupByList l s) = pHaving s"
  "pOrderByList (set_pHaving v s) = pOrderByList s"
  "pProjectionList (set_pOrderByList l s) = pProjectionList s"
  by (cases s; simp)+

lemma store_get [simp]:
  "pWhere (store set_pFromTable p s) = pWhere s"
  "pPartitionByList (store set_pWhere p s) = pPartitionByList s"
  "pPartitionByList (store set_pFromTable p s) = pPartitionByList s"
  "pGroupByList (store set_pWindow p s) = pGroupByList s"
  "pOrderByList (store set_pHaving p s) = pOrderByList s"
  by (cases p; simp add: store_def)+

lemma driverClauses_simps:
  "driverClauses SQL_CLAUSE_FROM = pipeline"
  "driverClauses SQL_CLAUSE_WHERE = [SQL_CLAUSE_PARTITION_BY, SQL_CLAUSE_WINDOW, SQL_CLAUSE_GROUP_BY,
     SQL_CLAUSE_HAVING, SQL_CLAUSE_DISTINCT, SQL_CLAUSE_ORDER_BY, SQL_CLAUSE_PROJECTION]"
  "driverClauses SQL_CLAUSE_PARTITION_BY = [SQL_CLAUSE_WINDOW, SQL_CLAUSE_GROUP_BY,
     SQL_CLAUSE_HAVING, SQL_CLAUSE_DISTINCT, SQL_CLAUSE_ORDER_BY, SQL_CLAUSE_PROJECTION]"
  "driverClauses SQL_CLAUSE_WINDOW = [SQL_CLAUSE_GROUP_BY,
     SQL_CLAUSE_HAVING, SQL_CLAUSE_DISTINCT, SQL_CLAUSE_ORDER_BY, SQL_CLAUSE_PROJECTION]"
  "driverClauses SQL_CLAUSE_GROUP_BY =
     [SQL_CLAUSE_HAVING, SQL_CLAUSE_DISTINCT, SQL_CLAUSE_ORDER_BY, SQL_CLAUSE_PROJECTION]"
  "driverClauses SQL_CLAUSE_HAVING = [SQL_CLAUSE_DISTINCT, SQL_CLAUSE_ORDER_BY, SQL_CLAUSE_PROJECTION]"
  "driverClauses SQL_CLAUSE_DISTINCT = [SQL_CLAUSE_ORDER_BY, SQL_CLAUSE_PROJECTION]"
  "driverClauses SQL_CLAUSE_ORDER_BY = [SQL_CLAUSE_PROJECTION]"
  "driverClauses SQL_CLAUSE_PROJECTION = []"
  by (simp_all add: driverClauses_def specClausesFrom_def pipeline_def)

lemma walk_driver:
  "nodesWalkSelectStmt (Some pSelect) clause walker cx =
     walkClauses pSelect walker (driverClauses clause) cx"
  by (cases clause)
     (simp_all add: driverClauses_simps pipeline_def walk_case_FROM_def walk_case_WHERE_def
        walk_case_PARTITION_BY_def walk_case_WINDOW_def walk_case_GROUP_BY_def
        walk_case_HAVING_def walk_case_ORDER_BY_def)

lemma rewrite_tail:
  "rewrite_case_ORDER_BY fuel s rw cx = rewriteClauses fuel rw [SQL_CLAUSE_PROJECTION] (s, cx)"
  "rewrite_case_HAVING fuel s rw cx =
     rewriteClauses fuel rw [SQL_CLAUSE_DISTINCT, SQL_CLAUSE_ORDER_BY, SQL_CLAUSE_PROJECTION] (s, cx)"
  by (simp_all add: rewrite_case_ORDER_BY_def rewrite_case_HAVING_def bind_def split_beta
        split: outcome.splits)

lemma rewrite_GROUP_BY:
  "rewrite_case_GROUP_BY fuel s rw cx =
     rewriteClauses fuel rw (driverClauses SQL_CLAUSE_GROUP_BY) (s, cx)"
  by (simp add: rewrite_case_GROUP_BY_def rewrite_tail driverClauses_simps bind_assoc split_beta cong: bind_cong)

lemma rewrite_WINDOW:
  "rewrite_case_WINDOW fuel s rw cx =
     rewriteClauses fuel rw (driverClauses SQL_CLAUSE_WINDOW) (s, cx)"
  by (simp add: rewrite_case_WINDOW_def rewrite_GROUP_BY driverClauses_simps bind_assoc split_beta cong: bind_cong)

lemma rewrite_PARTITION_BY:
  "rewrite_case_PARTITION_BY fuel s rw cx =
     rewriteClauses fuel rw (driverClauses SQL_CLAUSE_PARTITION_BY) (s, cx)"
  by (simp add: rewrite_case_PARTITION_BY_def rewrite_WINDOW driverClauses_simps bind_assoc split_beta cong: bind_cong)

lemma rewrite_WHERE:
  "rewrite_case_WHERE fuel s rw cx =
     rewriteClauses fuel rw (driverClauses SQL_CLAUSE_WHERE) (s, cx)"
  by (simp add: rewrite_case_WHERE_def rewrite_PARTITION_BY driverClauses_simps bind_assoc split_beta cong: bind_cong)

lemma rewrite_FROM:
  "rewrite_case_FROM fuel s rw cx =
     rewriteClauses fuel rw (driverClauses SQL_CLAUSE_FROM) (s, cx)"
  by (simp add: rewrite_case_FROM_def rewrite_WHERE driverClauses_simps pipeline_def bind_assoc split_beta cong: bind_cong)

lemma rewrite_driver:
  "nodesRewriteSelectStmt fuel (Some pSelect) clause rewriter cx =
     bind (rewriteClauses fuel rewriter (driverClauses clause) (pSelect, cx))
       (\<lambda>(pSelect, cx). Returns (Some pSelect, cx))"
  by (cases clause)
     (simp_all add: rewrite_FROM rewrite_WHERE rewrite_PARTITION_BY rewrite_WINDOW rewrite_GROUP_BY
        rewrite_tail driverClauses_simps)

text \<open>
  C1, as amended. Started at \<open>SQL_CLAUSE_FROM\<close>, the walking and the rewriting driver
  process every clause of the pipeline in order; started at any other clause they
  process, in pipeline order, the clauses after the starting clause and not that clause
  itself. Started at \<open>SQL_CLAUSE_GROUP_BY\<close> they process the having, (distinct,)
  order-by and projection clauses.
\<close>

theorem select_driver_clauses:
  "nodesWalkSelectStmt (Some pSelect) clause walker cx =
     walkClauses pSelect walker (driverClauses clause) cx \<and>
   nodesRewriteSelectStmt fuel (Some pSelect) clause rewriter cx =
     bind (rewriteClauses fuel rewriter (driverClauses clause) (pSelect, cx))
       (\<lambda>(pSelect, cx). Returns (Some pSelect, cx)) \<and>
   driverClauses SQL_CLAUSE_FROM =
     [SQL_CLAUSE_FROM, SQL_CLAUSE_WHERE, SQL_CLAUSE_PARTITION_BY, SQL_CLAUSE_WINDOW,
      SQL_CLAUSE_GROUP_BY, SQL_CLAUSE_HAVING, SQL_CLAUSE_DISTINCT, SQL_CLAUSE_ORDER_BY,
      SQL_CLAUSE_PROJECTION] \<and>
   driverClauses SQL_CLAUSE_WHERE =
     [SQL_CLAUSE_PARTITION_BY, SQL_CLAUSE_WINDOW, SQL_CLAUSE_GROUP_BY, SQL_CLAUSE_HAVING,
      SQL_CLAUSE_DISTINCT, SQL_CLAUSE_ORDER_BY, SQL_CLAUSE_PROJECTION] \<and>
   driverClauses SQL_CLAUSE_PARTITION_BY =
     [SQL_CLAUSE_WINDOW, SQL_CLAUSE_GROUP_BY, SQL_CLAUSE_HAVING, SQL_CLAUSE_DISTINCT,
      SQL_CLAUSE_ORDER_BY, SQL_CLAUSE_PROJECTION] \<and>
   driverClauses SQL_CLAUSE_WINDOW =
     [SQL_CLAUSE_GROUP_BY, SQL_CLAUSE_HAVING, SQL_CLAUSE_DISTINCT, SQL_CLAUSE_ORDER_BY,
      SQL_CLAUSE_PROJECTION] \<and>
   driverClauses SQL_CLAUSE_GROUP_BY =
     [SQL_CLAUSE_HAVING, SQL_CLAUSE_DISTINCT, SQL_CLAUSE_ORDER_BY, SQL_CLAUSE_PROJECTION] \<and>
   driverClauses SQL_CLAUSE_HAVING =
     [SQL_CLAUSE_DISTINCT, SQL_CLAUSE_ORDER_BY, SQL_CLAUSE_PROJECTION] \<and>
   driverClauses SQL_CLAUSE_DISTINCT = [SQL_CLAUSE_ORDER_BY, SQL_CLAUSE_PROJECTION] \<and>
   driverClauses SQL_CLAUSE_ORDER_BY = [SQL_CLAUSE_PROJECTION] \<and>
   driverClauses SQL_CLAUSE_PROJECTION = []"
  by (intro conjI walk_driver rewrite_driver) (simp_all add: driverClauses_simps pipeline_def)

theorem select_driver_clauses_counterexample:
  "specClausesFrom SQL_CLAUSE_GROUP_BY =
     [SQL_CLAUSE_GROUP_BY, SQL_CLAUSE_HAVING, SQL_CLAUSE_DISTINCT, SQL_CLAUSE_ORDER_BY,
      SQL_CLAUSE_PROJECTION] \<and>
   walkClauses select0 recorder (specClausesFrom SQL_CLAUSE_GROUP_BY) [] =
     [Column [] ''g'', Column [] ''h'', Column [] ''o'', Column [] ''p''] \<and>
   nodesWalkSelectStmt (Some select0) SQL_CLAUSE_GROUP_BY recorder [] =
     [Column [] ''h'', Column [] ''o'', Column [] ''p''] \<and>
   nodesRewriteSelectStmt 1 (Some select0) SQL_CLAUSE_GROUP_BY (asRewriter recorder) [] =
     Returns (Some select0, [Column [] ''h'', Column [] ''o'', Column [] ''p''])"
  by (simp add: specClausesFrom_def pipeline_def select0_def nodesWalkExpr_def nodesWalkExprs_def
        walk_case_GROUP_BY_def walk_case_HAVING_def walk_case_ORDER_BY_def recorder_def
        rewrite_case_GROUP_BY_def rewrite_case_HAVING_def rewrite_case_ORDER_BY_def
        nodesRewriteExpr_def nodesRewriteExprs_def rewriteNode_def asRewriter_def store_def)

subsection \<open>The factory\<close>

lemma alloc_ok:
  "\<forall>ok\<in>set (take (Suc k) mem). ok \<Longrightarrow> alloc mem = (True, tl mem)"
  "\<forall>ok\<in>set (take (Suc k) mem). ok \<Longrightarrow> \<forall>ok\<in>set (take k (tl mem)). ok"
  by (cases mem; auto)+

lemma alloc4:
  assumes "\<forall>ok\<in>set (take 4 mem). ok"
  shows "alloc mem = (True, tl mem)"
    and "alloc (tl mem) = (True, tl (tl mem))"
    and "alloc (tl (tl mem)) = (True, tl (tl (tl mem)))"
    and "alloc (tl (tl (tl mem))) = (True, drop 4 mem)"
proof -
  have a: "\<forall>ok\<in>set (take (Suc (Suc (Suc (Suc 0)))) mem). ok"
    using assms by (simp add: eval_nat_numeral)
  note b = alloc_ok(2)[OF a]
  note c = alloc_ok(2)[OF b]
  note d = alloc_ok(2)[OF c]
  show "alloc mem = (True, tl mem)" by (rule alloc_ok(1)[OF a])
  show "alloc (tl mem) = (True, tl (tl mem))" by (rule alloc_ok(1)[OF b])
  show "alloc (tl (tl mem)) = (True, tl (tl (tl mem)))" by (rule alloc_ok(1)[OF c])
  have e: "drop 4 mem = tl (tl (tl (tl mem)))"
    by (simp add: eval_nat_numeral drop_Suc)
  show "alloc (tl (tl (tl mem))) = (True, drop 4 mem)"
    unfolding e by (rule alloc_ok(1)[OF d])
qed

lemma alloc_cases: "alloc mem = (True, tl mem) \<or> alloc mem = (False, tl mem)"
  by (cases mem) auto

text \<open>
  C9. BETWEEN. While the four allocations it makes succeed, \<open>createBetweenAnd\<close> on \<open>e\<close>,
  \<open>a\<close>, \<open>b\<close> returns the AND condition whose parameter list is, in this order, the
  operator nodes \<open>e >= a\<close> and \<open>e <= b\<close>, and \<open>createNotBetweenAnd\<close> returns the OR
  condition of \<open>e < a\<close> and \<open>e > b\<close>; the context is left as it was.
\<close>

theorem between_desugaring:
  assumes "list_all (\<lambda>ok. ok) (take 4 mem)"
  shows "createBetweenAnd pCxt mem pExpr pLeft pRight =
           Returns (Some (LogicCondition LOGIC_COND_TYPE_AND
                      (Some [Some (Operator OP_TYPE_GREATER_EQUAL pExpr pLeft),
                             Some (Operator OP_TYPE_LOWER_EQUAL pExpr pRight)])),
                    pCxt, drop 4 mem) \<and>
         createNotBetweenAnd pCxt mem pExpr pLeft pRight =
           Returns (Some (LogicCondition LOGIC_COND_TYPE_OR
                      (Some [Some (Operator OP_TYPE_LOWER_THAN pExpr pLeft),
                             Some (Operator OP_TYPE_GREATER_THAN pExpr pRight)])),
                    pCxt, drop 4 mem)"
  unfolding createBetweenAnd_def createNotBetweenAnd_def createOperatorNode_def
    createLogicConditionNode_def nodesMakeNode_def nodesMakeList_def nodesListAppend_def
  using assms by (simp add: alloc4 list_all_iff)

theorem between_desugaring_witness:
  "list_all (\<lambda>ok. ok) (take 4 [True, True, True, True, False]) \<and>
   createBetweenAnd \<lparr>valid = True\<rparr> [True, True, True, True, False]
       (Some (Column [] ''e'')) (Some Value) (Some Limit) =
     Returns (Some (LogicCondition LOGIC_COND_TYPE_AND
                (Some [Some (Operator OP_TYPE_GREATER_EQUAL (Some (Column [] ''e'')) (Some Value)),
                       Some (Operator OP_TYPE_LOWER_EQUAL (Some (Column [] ''e'')) (Some Limit))])),
              \<lparr>valid = True\<rparr>, [False])"
  using between_desugaring[of "[True, True, True, True, False]" "\<lparr>valid = True\<rparr>"
      "Some (Column [] ''e'')" "Some Value" "Some Limit"]
  by simp

text \<open>
  C2, as amended. From a context whose flag is false, a factory call that validates no
  identifier leaves the flag false. The call does not consult the flag: it returns the
  node (null or not) and leaves the allocator as it would from a valid context.
\<close>

theorem invalid_context_is_not_consulted:
  assumes "\<not> valid pCxt" and "\<not> checksIdentifier call"
    and "factoryCall lim call pCxt mem = Returns (pNode, pCxt', mem')"
  shows "\<not> valid pCxt' \<and>
         (\<exists>pCxt''. factoryCall lim call (pCxt\<lparr>valid := True\<rparr>) mem = Returns (pNode, pCxt'', mem'))"
proof (cases call)
  case (CreateLogicConditionNode t p1 p2)
  then show ?thesis
    using assms alloc_cases[of mem] alloc_cases[of "tl mem"]
    by (auto simp add: createLogicConditionNode_def nodesMakeNode_def nodesMakeList_def out_of_mem_def
          Let_def)
next
  case (CreateBetweenAnd e l r)
  then show ?thesis
    using assms alloc_cases[of mem] alloc_cases[of "tl mem"] alloc_cases[of "tl (tl mem)"]
      alloc_cases[of "tl (tl (tl mem))"]
    by (auto simp add: createBetweenAnd_def createOperatorNode_def createLogicConditionNode_def
          nodesMakeNode_def nodesMakeList_def out_of_mem_def Let_def)
next
  case (CreateNotBetweenAnd e l r)
  then show ?thesis
    using assms alloc_cases[of mem] alloc_cases[of "tl mem"] alloc_cases[of "tl (tl mem)"]
      alloc_cases[of "tl (tl (tl mem))"]
    by (auto simp add: createNotBetweenAnd_def createOperatorNode_def createLogicConditionNode_def
          nodesMakeNode_def nodesMakeList_def out_of_mem_def Let_def)
next
  case (CreateFunctionNode f ps)
  then show ?thesis
    using assms alloc_cases[of mem]
    by (auto simp add: createFunctionNode_def nodesMakeNode_def out_of_mem_def split: option.splits)
qed (use assms alloc_cases[of mem] in \<open>auto simp add: createValueNode_def createDurationValueNode_def
      createOperatorNode_def createIsNullCondNode_def createNodeListNode_def createTempTableNode_def
      createJoinTableNode_def createLimitNode_def createOrderByExprNode_def createSessionWindowNode_def
      createStateWindowNode_def createIntervalWindowNode_def createFillNode_def createSelectStmt_def
      createSetOperator_def createShowStmt_def nodesMakeNode_def out_of_mem_def\<close>)

theorem invalid_context_is_not_consulted_witness:
  "\<not> valid \<lparr>valid = False\<rparr> \<and>
   \<not> checksIdentifier (CreateOperatorNode OP_TYPE_LOWER_THAN (Some Value) None) \<and>
   factoryCall limits0 (CreateOperatorNode OP_TYPE_LOWER_THAN (Some Value) None) \<lparr>valid = False\<rparr> [True] =
     Returns (Some (Operator OP_TYPE_LOWER_THAN (Some Value) None), \<lparr>valid = False\<rparr>, []) \<and>
   factoryCall limits0 (CreateOperatorNode OP_TYPE_LOWER_THAN (Some Value) None) \<lparr>valid = True\<rparr> [True] =
     Returns (Some (Operator OP_TYPE_LOWER_THAN (Some Value) None), \<lparr>valid = True\<rparr>, [])"
  using invalid_context_is_not_consulted[of "\<lparr>valid = False\<rparr>"
      "CreateOperatorNode OP_TYPE_LOWER_THAN (Some Value) None" limits0 "[True]"
      "Some (Operator OP_TYPE_LOWER_THAN (Some Value) None)" "\<lparr>valid = False\<rparr>" "[]"]
  by (simp add: createOperatorNode_def nodesMakeNode_def)

theorem invalid_context_is_not_consulted_counterexample:
  "createValueNode \<lparr>valid = False\<rparr> [] 0 None = Returns (Some Value, \<lparr>valid = False\<rparr>, []) \<and>
   createRealTableNode limits0 \<lparr>valid = False\<rparr> [] None
       (Some \<lparr>tk_type = 0, tk_n = 2, tk_z = ''t1''\<rparr>) None =
     Returns (Some (RealTable [] ''t1''), \<lparr>valid = True\<rparr>, [])"
  by (simp add: createValueNode_def createRealTableNode_def checkDbName_def checkTableName_def
        nodesMakeNode_def limits0_def strncpy_def)

text \<open>
  C3. What the factory does where the contract of C3 is broken: when the node of a logic
  condition is allocated and its parameter list is not, \<open>createLogicConditionNode\<close>
  returns the node with a \<open>NULL\<close> parameter list, the context still valid.
\<close>

theorem logic_condition_without_list:
  "createLogicConditionNode \<lparr>valid = True\<rparr> [True, False] LOGIC_COND_TYPE_AND
       (Some (Column [] ''a'')) (Some (Column [] ''b'')) =
     Returns (Some (LogicCondition LOGIC_COND_TYPE_AND None), \<lparr>valid = True\<rparr>, [])"
  by (simp add: createLogicConditionNode_def nodesMakeNode_def nodesMakeList_def nodesListAppend_def)

text \<open>
  C8. Bound of a table name. A table-name token whose length equals
  \<open>TSDB_TABLE_NAME_LEN\<close> is rejected: the check returns false and marks the context
  invalid, and \<open>createRealTableNode\<close> and \<open>createColumnNode\<close> return a null node with the
  context invalid. A token one shorter is accepted: the check returns true with the
  context valid, and \<open>createRealTableNode\<close> (no database name, allocation succeeding)
  returns the table node, the context valid.
\<close>

theorem table_name_bound:
  "(tk_n tok = TSDB_TABLE_NAME_LEN lim \<longrightarrow>
      checkTableName lim pCxt (Some tok) = (False, pCxt\<lparr>valid := False\<rparr>) \<and>
      createRealTableNode lim pCxt mem pDbName (Some tok) pTableAlias =
        Returns (None, pCxt\<lparr>valid := False\<rparr>, mem) \<and>
      createColumnNode lim pCxt mem (Some tok) pColumnName =
        Returns (None, pCxt\<lparr>valid := False\<rparr>, mem)) \<and>
   (Suc (tk_n tok) = TSDB_TABLE_NAME_LEN lim \<longrightarrow>
      checkTableName lim pCxt (Some tok) = (True, pCxt\<lparr>valid := True\<rparr>) \<and>
      (fst (alloc mem) \<longrightarrow>
         createRealTableNode lim pCxt mem None (Some tok) pTableAlias =
           Returns (Some (RealTable [] (strncpy (tk_z tok) (tk_n tok))), pCxt\<lparr>valid := True\<rparr>,
                    snd (alloc mem))))"
  by (auto simp add: checkTableName_def checkDbName_def createRealTableNode_def createColumnNode_def
        nodesMakeNode_def Let_def split_beta split: option.splits)

theorem table_name_bound_witness:
  "tk_n \<lparr>tk_type = 0, tk_n = 3, tk_z = ''abc''\<rparr> = TSDB_TABLE_NAME_LEN limits0 \<and>
   createRealTableNode limits0 \<lparr>valid = True\<rparr> [] None (Some \<lparr>tk_type = 0, tk_n = 3, tk_z = ''abc''\<rparr>) None =
     Returns (None, \<lparr>valid = False\<rparr>, []) \<and>
   Suc (tk_n \<lparr>tk_type = 0, tk_n = 2, tk_z = ''ab''\<rparr>) = TSDB_TABLE_NAME_LEN limits0 \<and>
   fst (alloc []) \<and>
   createRealTableNode limits0 \<lparr>valid = True\<rparr> [] None (Some \<lparr>tk_type = 0, tk_n = 2, tk_z = ''ab''\<rparr>) None =
     Returns (Some (RealTable [] ''ab''), \<lparr>valid = True\<rparr>, [])"
  using table_name_bound[of "\<lparr>tk_type = 0, tk_n = 3, tk_z = ''abc''\<rparr>" limits0 "\<lparr>valid = True\<rparr>" "[]" None None None]
        table_name_bound[of "\<lparr>tk_type = 0, tk_n = 2, tk_z = ''ab''\<rparr>" limits0 "\<lparr>valid = True\<rparr>" "[]" None None None]
  by (simp add: limits0_def strncpy_def)

end
